theory Spec2Isabelle
  imports Main "HOL-Library.Char_ord" "HOL-Library.List_Lexorder"
begin

section \<open>Strings and formatting\<close>

text \<open>
  The source builds its messages with f-strings, \<open>str.join\<close>, \<open>str.startswith\<close>,
  \<open>str.split\<close> and \<open>str.strip\<close>. A Python string is modelled as a \<open>string\<close>
  whose elements stand for the characters of the source string, so \<open>length\<close> is
  Python's \<open>len\<close>.
\<close>

definition digit_char :: "nat \<Rightarrow> char" where
  "digit_char d = ''0123456789'' ! d"

function str_nat :: "nat \<Rightarrow> string" where
  "str_nat n = (if n < 10 then [digit_char n] else str_nat (n div 10) @ [digit_char (n mod 10)])"
  by pat_completeness auto
termination
  by (relation "measure id") auto

declare str_nat.simps [simp del]

definition str_int :: "int \<Rightarrow> string" where
  "str_int i = (if i < 0 then CHR ''-'' # str_nat (nat (- i)) else str_nat (nat i))"

fun join :: "string \<Rightarrow> string list \<Rightarrow> string" where
  "join sep [] = []"
| "join sep [x] = x"
| "join sep (x # y # ys) = x @ sep @ join sep (y # ys)"

definition startswith :: "string \<Rightarrow> string \<Rightarrow> bool" where
  "startswith s p = (take (length p) s = p)"

fun split_on :: "char \<Rightarrow> string \<Rightarrow> string list" where
  "split_on c [] = [[]]"
| "split_on c (x # xs) =
     (if x = c then [] # split_on c xs
      else (case split_on c xs of [] \<Rightarrow> [[x]] | w # ws \<Rightarrow> (x # w) # ws))"

definition is_space :: "char \<Rightarrow> bool" where
  "is_space c = (c \<in> set [CHR '' '', CHR 0x09, CHR 0x0A, CHR 0x0B, CHR 0x0C, CHR 0x0D,
                            CHR 0x1C, CHR 0x1D, CHR 0x1E, CHR 0x1F, CHR 0x85, CHR 0xA0])"

definition strip :: "string \<Rightarrow> string" where
  "strip s = rev (dropWhile is_space (rev (dropWhile is_space s)))"

section \<open>Settings (app/config.py)\<close>

text \<open>
  The fields of \<open>Settings\<close> that the modelled code reads. The ceilings are declared
  \<open>int\<close> in the source with non-negative defaults; they are natural numbers here.
\<close>

record settings =
  FORBIDDEN_IMPORTS :: "string set"
  MAX_CODE_LENGTH :: nat
  MAX_COMPLEXITY :: nat
  MAX_OUTPUT_SIZE :: nat
  MAX_FILE_SIZE :: nat
  MAX_TOTAL_SIZE :: nat
  MAX_FILE_COUNT :: nat
  EXECUTOR_PROVIDER :: string
  EXECUTOR_FALLBACK_PROVIDERS :: string

definition default_settings :: settings where
  "default_settings =
     \<lparr> FORBIDDEN_IMPORTS = {''os'', ''subprocess'', ''socket'', ''sys'', ''importlib'',
         ''ctypes'', ''__builtin__'', ''builtins'', ''multiprocessing'', ''threading''},
       MAX_CODE_LENGTH = 50000,
       MAX_COMPLEXITY = 20,
       MAX_OUTPUT_SIZE = 10240,
       MAX_FILE_SIZE = 10485760,
       MAX_TOTAL_SIZE = 52428800,
       MAX_FILE_COUNT = 10,
       EXECUTOR_PROVIDER = ''docker'',
       EXECUTOR_FALLBACK_PROVIDERS = ''docker'' \<rparr>"

section \<open>Syntax trees (the part of Python's ast the validator reads)\<close>

text \<open>
  \<open>ast.parse\<close> is library code; the validator only inspects the class of each node,
  a few of its fields, and its child nodes. A node class that no check looks at is
  \<open>Other\<close>, carrying its child nodes in field order. Marker leaves without fields
  (\<open>And\<close>, \<open>Or\<close>, \<open>Load\<close>, \<open>Store\<close>) are not represented as children of the classes
  spelled out below; inside \<open>Other\<close> they can be written \<open>Other []\<close>.
\<close>

datatype const_value = CTrue | CFalse | CNone | CInt int | CStr string | CEllipsis

datatype py_alias = Alias (alias_name: string) (asname: "string option")

datatype boolop = And | Or

datatype node =
    Module "node list"
  | Import "py_alias list"
  | ImportFrom "string option" "py_alias list" nat
  | AliasNode py_alias
  | If node "node list" "node list"
  | While node "node list" "node list"
  | For node node "node list" "node list"
  | ExceptHandler "node option" "string option" "node list"
  | BoolOp boolop "node list"
  | ListComp node "node list"
  | SetComp node "node list"
  | DictComp node node "node list"
  | Comprehension node node "node list"
  | Call node "node list" "node list"
  | Name string
  | Constant const_value
  | Other "node list"

text \<open>\<open>ast.iter_child_nodes\<close>: the child nodes of a node, in field order.\<close>

fun iter_child_nodes :: "node \<Rightarrow> node list" where
  "iter_child_nodes (Module body) = body"
| "iter_child_nodes (Import names) = map AliasNode names"
| "iter_child_nodes (ImportFrom m names level) = map AliasNode names"
| "iter_child_nodes (AliasNode a) = []"
| "iter_child_nodes (If test body orelse) = test # body @ orelse"
| "iter_child_nodes (While test body orelse) = test # body @ orelse"
| "iter_child_nodes (For target iter body orelse) = target # iter # body @ orelse"
| "iter_child_nodes (ExceptHandler None nm body) = body"
| "iter_child_nodes (ExceptHandler (Some t) nm body) = t # body"
| "iter_child_nodes (BoolOp op vals) = vals"
| "iter_child_nodes (ListComp elt generators) = elt # generators"
| "iter_child_nodes (SetComp elt generators) = elt # generators"
| "iter_child_nodes (DictComp k v generators) = k # v # generators"
| "iter_child_nodes (Comprehension target iter ifs) = target # iter # ifs"
| "iter_child_nodes (Call func args keywords) = func # args @ keywords"
| "iter_child_nodes (Name ident) = []"
| "iter_child_nodes (Constant c) = []"
| "iter_child_nodes (Other children) = children"

text \<open>The number of nodes of a tree, alias leaves included.\<close>

fun node_count :: "node \<Rightarrow> nat" where
  "node_count (Module body) = Suc (sum_list (map node_count body))"
| "node_count (Import names) = Suc (length names)"
| "node_count (ImportFrom m names level) = Suc (length names)"
| "node_count (AliasNode a) = Suc 0"
| "node_count (If test body orelse) =
     Suc (node_count test + sum_list (map node_count body) + sum_list (map node_count orelse))"
| "node_count (While test body orelse) =
     Suc (node_count test + sum_list (map node_count body) + sum_list (map node_count orelse))"
| "node_count (For target iter body orelse) =
     Suc (node_count target + node_count iter + sum_list (map node_count body)
          + sum_list (map node_count orelse))"
| "node_count (ExceptHandler None nm body) = Suc (sum_list (map node_count body))"
| "node_count (ExceptHandler (Some t) nm body) =
     Suc (node_count t + sum_list (map node_count body))"
| "node_count (BoolOp op vals) = Suc (sum_list (map node_count vals))"
| "node_count (ListComp elt generators) =
     Suc (node_count elt + sum_list (map node_count generators))"
| "node_count (SetComp elt generators) =
     Suc (node_count elt + sum_list (map node_count generators))"
| "node_count (DictComp k v generators) =
     Suc (node_count k + node_count v + sum_list (map node_count generators))"
| "node_count (Comprehension target iter ifs) =
     Suc (node_count target + node_count iter + sum_list (map node_count ifs))"
| "node_count (Call func args keywords) =
     Suc (node_count func + sum_list (map node_count args) + sum_list (map node_count keywords))"
| "node_count (Name ident) = Suc 0"
| "node_count (Constant c) = Suc 0"
| "node_count (Other children) = Suc (sum_list (map node_count children))"

lemma node_count_alias_nodes: "sum_list (map (node_count \<circ> AliasNode) names) = length names"
  by (induction names) simp_all

lemma node_count_children:
  "node_count n = Suc (sum_list (map node_count (iter_child_nodes n)))"
  by (induction n rule: iter_child_nodes.induct) (simp_all add: node_count_alias_nodes)

text \<open>
  \<open>ast.walk\<close>: breadth-first, from a queue holding the root; each node taken from the
  front is yielded and its children are appended at the back.
\<close>

function walk_queue :: "node list \<Rightarrow> node list" where
  "walk_queue [] = []"
| "walk_queue (n # todo) = n # walk_queue (todo @ iter_child_nodes n)"
  by pat_completeness auto
termination
proof (relation "measure (\<lambda>q. sum_list (map node_count q))")
  show "wf (measure (\<lambda>q. sum_list (map node_count q)))" by simp
next
  fix n :: node and todo :: "node list"
  show "(todo @ iter_child_nodes n, n # todo) \<in> measure (\<lambda>q. sum_list (map node_count q))"
    by (simp add: node_count_children [of n])
qed

definition walk :: "node \<Rightarrow> node list" where
  "walk tree = walk_queue [tree]"

section \<open>The validator (app/core/validator.py)\<close>

text \<open>
  \<open>ast.parse\<close> either returns a tree or raises: a \<open>SyntaxError\<close> with its line number
  (possibly \<open>None\<close>) and message, or some other exception with its text. The parser is a
  parameter of \<open>validate\<close>.
\<close>

datatype parse_error = SyntaxError "int option" string | ParseFailure string

type_synonym parser = "string \<Rightarrow> parse_error + node"

definition str_lineno :: "int option \<Rightarrow> string" where
  "str_lineno l = (case l of None \<Rightarrow> ''None'' | Some i \<Rightarrow> str_int i)"

text \<open>\<open>name.split('.')[0]\<close>: the text before the first dot.\<close>

definition first_component :: "string \<Rightarrow> string" where
  "first_component nm = (case split_on CHR ''.'' nm of [] \<Rightarrow> [] | w # ws \<Rightarrow> w)"

text \<open>One iteration of the loop of \<open>_check_imports\<close> over the walked nodes.\<close>

definition imports_step :: "settings \<Rightarrow> string list \<Rightarrow> node \<Rightarrow> string list" where
  "imports_step cfg forbidden_found nd =
     (case nd of
        Import names \<Rightarrow>
          forbidden_found @
          map alias_name
            (filter (\<lambda>a. first_component (alias_name a) \<in> FORBIDDEN_IMPORTS cfg) names)
      | ImportFrom module names level \<Rightarrow>
          (case module of
             None \<Rightarrow> forbidden_found
           | Some m \<Rightarrow>
               if m = [] then forbidden_found
               else if first_component m \<in> FORBIDDEN_IMPORTS cfg then forbidden_found @ [m]
               else forbidden_found)
      | _ \<Rightarrow> forbidden_found)"

definition check_imports :: "settings \<Rightarrow> node \<Rightarrow> string list" where
  "check_imports cfg tree = foldl (imports_step cfg) [] (walk tree)"

definition dangerous_builtins :: "string list" where
  "dangerous_builtins = [''eval'', ''exec'', ''compile'', ''__import__'']"

definition patterns_step :: "string list \<Rightarrow> node \<Rightarrow> string list" where
  "patterns_step warnings nd =
     (let warnings1 =
            (case nd of
               While (Constant CTrue) body orelse \<Rightarrow>
                 warnings @ [''Potential infinite loop detected (while True)'']
             | _ \<Rightarrow> warnings)
      in case nd of
           Call (Name ident) args keywords \<Rightarrow>
             if ident \<in> set dangerous_builtins
             then warnings1 @ [''Dangerous builtin usage: '' @ ident]
             else warnings1
         | _ \<Rightarrow> warnings1)"

definition check_patterns :: "node \<Rightarrow> string list" where
  "check_patterns tree = foldl patterns_step [] (walk tree)"

definition complexity_step :: "int \<Rightarrow> node \<Rightarrow> int" where
  "complexity_step complexity nd =
     (case nd of
        If test body orelse \<Rightarrow> complexity + 1
      | While test body orelse \<Rightarrow> complexity + 1
      | For target iter body orelse \<Rightarrow> complexity + 1
      | ExceptHandler t nm body \<Rightarrow> complexity + 1
      | BoolOp op vals \<Rightarrow> complexity + (int (length vals) - 1)
      | ListComp elt generators \<Rightarrow> complexity + int (length generators)
      | DictComp k v generators \<Rightarrow> complexity + int (length generators)
      | SetComp elt generators \<Rightarrow> complexity + int (length generators)
      | _ \<Rightarrow> complexity)"

definition calculate_complexity :: "node \<Rightarrow> int" where
  "calculate_complexity tree = foldl complexity_step 1 (walk tree)"

definition length_error :: "settings \<Rightarrow> string" where
  "length_error cfg =
     ''Code exceeds maximum length of '' @ str_nat (MAX_CODE_LENGTH cfg) @ '' characters''"

definition syntax_error_msg :: "parse_error \<Rightarrow> string" where
  "syntax_error_msg e =
     (case e of
        SyntaxError lineno msg \<Rightarrow> ''Syntax error at line '' @ str_lineno lineno @ '': '' @ msg
      | ParseFailure txt \<Rightarrow> ''Failed to parse code: '' @ txt)"

definition forbidden_error :: "string \<Rightarrow> string" where
  "forbidden_error imp = ''Forbidden import: '' @ imp"

definition warning_entry :: "string \<Rightarrow> string" where
  "warning_entry w = ''Warning: '' @ w"

definition complexity_error :: "settings \<Rightarrow> int \<Rightarrow> string" where
  "complexity_error cfg complexity =
     ''Code complexity '' @ str_int complexity @ '' exceeds maximum ''
       @ str_nat (MAX_COMPLEXITY cfg)"

definition validate :: "settings \<Rightarrow> parser \<Rightarrow> string \<Rightarrow> bool \<times> string list" where
  "validate cfg ast_parse code =
     (if length code > MAX_CODE_LENGTH cfg then (False, [length_error cfg])
      else
        (case ast_parse code of
           Inl e \<Rightarrow> (False, [syntax_error_msg e])
         | Inr tree \<Rightarrow>
             (let forbidden_found = check_imports cfg tree in
              if forbidden_found \<noteq> [] then (False, map forbidden_error forbidden_found)
              else
                (let errors = map warning_entry (check_patterns tree);
                     complexity = calculate_complexity tree
                 in if complexity > int (MAX_COMPLEXITY cfg)
                    then (False, errors @ [complexity_error cfg complexity])
                    else (True, errors)))))"

section \<open>The execution service (app/core/service.py)\<close>

datatype sandbox_exception =
    ValidationError string
  | ExecutionError string
  | DockerError string

text \<open>
  The service holds the lazily loaded executor. \<open>execute_calls\<close> records, in order, the
  arguments of every call of the backend's \<open>execute\<close> made through the service; it is not
  a field of the source, it makes the calls observable.
\<close>

record service_state =
  executor_loaded :: bool
  execute_calls :: "(string \<times> int) list"

text \<open>
  \<open>get_executor\<close> stands for the \<open>executor\<close> property: the backend's \<open>execute\<close>
  operation, or the exception its construction raises.
\<close>

definition execute_code ::
  "settings \<Rightarrow> parser \<Rightarrow> (sandbox_exception + (string \<Rightarrow> int \<Rightarrow> 'r)) \<Rightarrow>
   string \<Rightarrow> int \<Rightarrow> service_state \<Rightarrow> (sandbox_exception + 'r) \<times> service_state" where
  "execute_code cfg ast_parse get_executor code timeout st =
     (case validate cfg ast_parse code of
        (is_valid, errors) \<Rightarrow>
          if \<not> is_valid then
            (let error_msgs = filter (\<lambda>err. \<not> startswith err ''Warning:'') errors
             in (Inl (ValidationError (''Validation failed: '' @ join ''; '' error_msgs)), st))
          else
            (case get_executor of
               Inl e \<Rightarrow> (Inl e, st)
             | Inr execute \<Rightarrow>
                 (Inr (execute code timeout),
                  st\<lparr>executor_loaded := True,
                     execute_calls := execute_calls st @ [(code, timeout)]\<rparr>)))"

text \<open>
  A parser given by a finite table of snippets and their trees, for stating examples:
  every other string is a syntax error.
\<close>

definition table_parser :: "(string \<times> node) list \<Rightarrow> parser" where
  "table_parser tbl code =
     (case map_of tbl code of
        Some tree \<Rightarrow> Inr tree
      | None \<Rightarrow> Inl (SyntaxError (Some 1) ''invalid syntax''))"

section \<open>The container backend (app/executors/docker.py)\<close>

text \<open>
  File contents and socket traffic are byte strings; a byte is a \<open>char\<close>.
  An exception raised by the Docker client, the tar reader or the storage collaborator is
  a value: \<open>ContainerError\<close> with its exit status and text, or any other exception with
  its text.
\<close>

type_synonym bytes = "char list"

datatype py_exception = ContainerError int string | OtherException string

text \<open>
  The result dictionary of \<open>execute\<close>. The field \<open>execution_time\<close>, a wall-clock
  measurement, is left out.
\<close>

record execution_result =
  success :: bool
  stdout :: string
  stderr :: string
  exit_code :: int
  error :: "string option"
  files :: "string list"

definition truncation_marker :: "nat \<Rightarrow> string" where
  "truncation_marker max_size =
     [CHR 0x0A, CHR 0x0A] @ ''[Output truncated - exceeded '' @ str_nat max_size @ '' bytes]''"

definition truncate_output :: "settings \<Rightarrow> string \<Rightarrow> string" where
  "truncate_output cfg output =
     (let max_size = MAX_OUTPUT_SIZE cfg
      in if length output > max_size then take max_size output @ truncation_marker max_size
         else output)"

text \<open>
  The storage collaborator: \<open>save_file\<close> takes the content, the file name, the execution
  id and the member's path in the archive, and returns a stored path, nothing, or raises;
  \<open>generate_presigned_url\<close> takes the stored path.
\<close>

record storage_manager =
  is_enabled :: bool
  save_file :: "bytes \<Rightarrow> string \<Rightarrow> string \<Rightarrow> string \<Rightarrow> py_exception + string option"
  generate_presigned_url :: "string \<Rightarrow> py_exception + string"

text \<open>
  A member of the archive of \<open>/tmp/output\<close>: its path in the archive, whether it is a
  regular file, the size its header declares, and what \<open>extractfile\<close> followed by
  \<open>read\<close> yields for it (nothing when \<open>extractfile\<close> returns \<open>None\<close>).
\<close>

record tar_member =
  member_name :: string
  isfile :: bool
  member_size :: nat
  file_content :: "bytes option"

text \<open>
  \<open>Path(name).name\<close>: the last component of the path, empty components and \<open>.\<close>
  components dropped as \<open>pathlib\<close> does when it parses the path.
\<close>

definition path_name :: "string \<Rightarrow> string" where
  "path_name nm =
     (case rev (filter (\<lambda>part. part \<noteq> [] \<and> part \<noteq> ''.'') (split_on CHR ''/'' nm)) of
        [] \<Rightarrow> []
      | part # parts \<Rightarrow> part)"

text \<open>
  Saving one extracted file: the URL appended to \<open>file_urls\<close>, or nothing when the
  storage raises or returns no path.
\<close>

definition saved_url :: "storage_manager \<Rightarrow> string \<Rightarrow> tar_member \<Rightarrow> string \<Rightarrow> bytes \<Rightarrow> string list" where
  "saved_url sm execution_id member filename content =
     (case save_file sm content filename execution_id (member_name member) of
        Inl e \<Rightarrow> []
      | Inr None \<Rightarrow> []
      | Inr (Some file_url) \<Rightarrow>
          if file_url = [] then []
          else (case generate_presigned_url sm file_url of
                  Inl e \<Rightarrow> []
                | Inr presigned_url \<Rightarrow> [presigned_url]))"

text \<open>
  The loop over \<open>tar.getmembers()\<close>, with its three variables. A \<open>continue\<close> goes on
  with the remaining members, a \<open>break\<close> returns the URLs collected so far.
\<close>

fun extract_members ::
  "settings \<Rightarrow> storage_manager \<Rightarrow> string \<Rightarrow> tar_member list \<Rightarrow> nat \<Rightarrow> nat \<Rightarrow> string list
   \<Rightarrow> string list" where
  "extract_members cfg sm execution_id [] total_size file_count file_urls = file_urls"
| "extract_members cfg sm execution_id (member # rest) total_size file_count file_urls =
     (if \<not> isfile member
      then extract_members cfg sm execution_id rest total_size file_count file_urls
      else
        (let filename = path_name (member_name member) in
         if startswith filename ''.''
         then extract_members cfg sm execution_id rest total_size file_count file_urls
         else if file_count \<ge> MAX_FILE_COUNT cfg then file_urls
         else if member_size member > MAX_FILE_SIZE cfg
         then extract_members cfg sm execution_id rest total_size file_count file_urls
         else if total_size + member_size member > MAX_TOTAL_SIZE cfg then file_urls
         else
           (case file_content member of
              None \<Rightarrow> extract_members cfg sm execution_id rest total_size file_count file_urls
            | Some content \<Rightarrow>
                if length content = 0
                then extract_members cfg sm execution_id rest total_size file_count file_urls
                else extract_members cfg sm execution_id rest
                       (total_size + length content) (file_count + 1)
                       (file_urls @ saved_url sm execution_id member filename content))))"

text \<open>
  \<open>_extract_and_save_files\<close>. \<open>storage\<close> is what \<open>get_storage_manager()\<close> returns;
  \<open>archive\<close> is the member list of the archive of the output directory, or the
  exception that fetching or opening it raises (caught: no files).
\<close>

definition extract_and_save_files ::
  "settings \<Rightarrow> storage_manager option \<Rightarrow> string \<Rightarrow> py_exception + tar_member list
   \<Rightarrow> string list" where
  "extract_and_save_files cfg storage execution_id archive =
     (case storage of
        None \<Rightarrow> []
      | Some sm \<Rightarrow>
          if \<not> is_enabled sm then []
          else (case archive of
                  Inl e \<Rightarrow> []
                | Inr members \<Rightarrow> extract_members cfg sm execution_id members 0 0 []))"

text \<open>
  What the Docker client does for one request: whether \<open>containers.run\<close> raises, what
  \<open>container.wait\<close> returns (the status code) or raises, the decoded logs or the
  exception raised on the way, and the archive of the output directory.
\<close>

record container_run =
  run_raises :: "py_exception option"
  wait_result :: "py_exception + int"
  stdout_logs :: "py_exception + string"
  stderr_logs :: "py_exception + string"
  output_archive :: "py_exception + tar_member list"

text \<open>\<open>str.lower\<close> on the ASCII letters, and the substring test \<open>p in s\<close>.\<close>

definition lower_char :: "char \<Rightarrow> char" where
  "lower_char c =
     (let n = (of_char c :: nat) in if 65 \<le> n \<and> n \<le> 90 then char_of (n + 32) else c)"

definition lower :: "string \<Rightarrow> string" where
  "lower s = map lower_char s"

fun contains :: "string \<Rightarrow> string \<Rightarrow> bool" where
  "contains [] p = (p = [])"
| "contains (c # s) p = (startswith (c # s) p \<or> contains s p)"

text \<open>The two \<open>except\<close> clauses of \<open>execute\<close>.\<close>

definition execute_failed :: "py_exception \<Rightarrow> execution_result" where
  "execute_failed e =
     (case e of
        ContainerError exit_status text \<Rightarrow>
          \<lparr> success = False, stdout = [], stderr = text, exit_code = exit_status,
            error = Some ''Container error'', files = [] \<rparr>
      | OtherException text \<Rightarrow>
          \<lparr> success = False, stdout = [], stderr = text, exit_code = - 1,
            error = Some (if contains (lower text) ''timeout'' \<or> contains (lower text) ''timed out''
                          then ''Execution timeout'' else ''Execution failed''),
            files = [] \<rparr>)"

text \<open>
  \<open>DockerExecutor.execute\<close>. The removal of the container in the \<open>finally\<close> clause
  does not change the result and is not modelled.
\<close>

definition docker_execute ::
  "settings \<Rightarrow> storage_manager option \<Rightarrow> string \<Rightarrow> container_run \<Rightarrow> execution_result" where
  "docker_execute cfg storage execution_id env =
     (case run_raises env of
        Some e \<Rightarrow> execute_failed e
      | None \<Rightarrow>
          (case wait_result env of
             Inl e \<Rightarrow> execute_failed e
           | Inr status_code \<Rightarrow>
               (case stdout_logs env of
                  Inl e \<Rightarrow> execute_failed e
                | Inr out \<Rightarrow>
                    (case stderr_logs env of
                       Inl e \<Rightarrow> execute_failed e
                     | Inr err \<Rightarrow>
                         \<lparr> success = True,
                           stdout = truncate_output cfg out,
                           stderr = truncate_output cfg err,
                           exit_code = status_code,
                           error = None,
                           files = extract_and_save_files cfg storage execution_id
                                     (output_archive env) \<rparr>))))"

section \<open>The backend registry and factory (app/executors/factory.py)\<close>

text \<open>
  A backend instance, as far as the factory looks at it: its name and what
  \<open>health_check\<close> gives (a boolean, or an exception). A backend class is what calling
  it gives: an instance, or the text of the exception its constructor raises.
\<close>

record executor_instance =
  get_name :: string
  health_check :: "py_exception + bool"

type_synonym executor_class = "string + executor_instance"

text \<open>
  \<open>ExecutorRegistry._registry\<close> is a dictionary in insertion order: an association list
  that \<open>register\<close> keeps free of duplicate keys. \<open>ExecutorFactory._instances\<close> is
  only looked up and updated: a map.
\<close>

type_synonym registry = "(string \<times> executor_class) list"

type_synonym instances = "string \<rightharpoonup> executor_instance"

fun register :: "string \<Rightarrow> executor_class \<Rightarrow> registry \<Rightarrow> registry" where
  "register provider cls [] = [(provider, cls)]"
| "register provider cls ((k, v) # reg) =
     (if k = provider then (provider, cls) # reg else (k, v) # register provider cls reg)"

definition has_provider :: "registry \<Rightarrow> string \<Rightarrow> bool" where
  "has_provider reg provider = (provider \<in> set (map fst reg))"

definition list_providers :: "registry \<Rightarrow> string list" where
  "list_providers reg = sort (map fst reg)"

definition registry_get :: "registry \<Rightarrow> string \<Rightarrow> sandbox_exception + executor_class" where
  "registry_get reg provider =
     (case map_of reg provider of
        None \<Rightarrow>
          (let joined = join '', '' (map fst reg);
               available = (if joined = [] then ''none'' else joined)
           in Inl (ExecutionError
                (''Unknown executor provider '' @ [CHR 0x27] @ provider @ [CHR 0x27]
                  @ ''. Available providers: '' @ available)))
      | Some cls \<Rightarrow> Inr cls)"

definition create_executor ::
  "settings \<Rightarrow> registry \<Rightarrow> string option \<Rightarrow> instances
   \<Rightarrow> (sandbox_exception + executor_instance) \<times> instances" where
  "create_executor cfg reg provider insts =
     (let provider_type =
            (case provider of
               None \<Rightarrow> EXECUTOR_PROVIDER cfg
             | Some p \<Rightarrow> if p = [] then EXECUTOR_PROVIDER cfg else p)
      in case insts provider_type of
           Some executor \<Rightarrow> (Inr executor, insts)
         | None \<Rightarrow>
             (case registry_get reg provider_type of
                Inl e \<Rightarrow> (Inl e, insts)
              | Inr executor_class \<Rightarrow>
                  (case executor_class of
                     Inr executor \<Rightarrow> (Inr executor, insts(provider_type \<mapsto> executor))
                   | Inl text \<Rightarrow>
                       (Inl (ExecutionError
                          (''Failed to initialize executor '' @ [CHR 0x27] @ provider_type
                            @ [CHR 0x27] @ '': '' @ text)),
                        insts))))"

definition parse_fallback_providers :: "string \<Rightarrow> string list" where
  "parse_fallback_providers fallback_config =
     map strip (filter (\<lambda>p. strip p \<noteq> []) (split_on CHR '','' fallback_config))"

text \<open>\<open>if await executor.health_check()\<close>: an exception is caught by the caller.\<close>

definition is_healthy :: "executor_instance \<Rightarrow> bool" where
  "is_healthy executor = (health_check executor = Inr True)"

text \<open>The loop over the fallback providers; \<open>None\<close> when it runs to its end.\<close>

fun try_fallbacks ::
  "settings \<Rightarrow> registry \<Rightarrow> string \<Rightarrow> string list \<Rightarrow> instances
   \<Rightarrow> executor_instance option \<times> instances" where
  "try_fallbacks cfg reg primary_provider [] insts = (None, insts)"
| "try_fallbacks cfg reg primary_provider (provider # rest) insts =
     (if provider = primary_provider then try_fallbacks cfg reg primary_provider rest insts
      else if \<not> has_provider reg provider
      then try_fallbacks cfg reg primary_provider rest insts
      else
        (case create_executor cfg reg (Some provider) insts of
           (Inr executor, insts') \<Rightarrow>
             if is_healthy executor then (Some executor, insts')
             else try_fallbacks cfg reg primary_provider rest insts'
         | (Inl e, insts') \<Rightarrow> try_fallbacks cfg reg primary_provider rest insts'))"

definition no_healthy_executor :: "string \<Rightarrow> string list \<Rightarrow> registry \<Rightarrow> sandbox_exception" where
  "no_healthy_executor primary_provider fallback_providers reg =
     ExecutionError
       (''No healthy executor available. ''
        @ ''Tried: '' @ join '', '' (primary_provider # fallback_providers) @ ''. ''
        @ ''Registered providers: '' @ join '', '' (list_providers reg))"

definition after_primary ::
  "settings \<Rightarrow> registry \<Rightarrow> instances \<Rightarrow> (sandbox_exception + executor_instance) \<times> instances" where
  "after_primary cfg reg insts =
     (let primary_provider = EXECUTOR_PROVIDER cfg;
          fallback_providers = parse_fallback_providers (EXECUTOR_FALLBACK_PROVIDERS cfg)
      in case try_fallbacks cfg reg primary_provider fallback_providers insts of
           (Some executor, insts') \<Rightarrow> (Inr executor, insts')
         | (None, insts') \<Rightarrow>
             (Inl (no_healthy_executor primary_provider fallback_providers reg), insts'))"

definition get_healthy_executor ::
  "settings \<Rightarrow> registry \<Rightarrow> instances \<Rightarrow> (sandbox_exception + executor_instance) \<times> instances" where
  "get_healthy_executor cfg reg insts =
     (let primary_provider = EXECUTOR_PROVIDER cfg
      in case create_executor cfg reg (Some primary_provider) insts of
           (Inr executor, insts') \<Rightarrow>
             if is_healthy executor then (Inr executor, insts') else after_primary cfg reg insts'
         | (Inl e, insts') \<Rightarrow> after_primary cfg reg insts')"

section \<open>The guest agent (firecracker-guest-agent/agent.py)\<close>

text \<open>
  A request is the dictionary \<open>json.loads\<close> returns. Of a JSON value the agent only
  needs to know whether it is a string or a number; any other value carries the text
  \<open>str\<close> gives it.
\<close>

datatype json = JStr string | JNum int | JOther string

definition json_str :: "json \<Rightarrow> string" where
  "json_str v = (case v of JStr s \<Rightarrow> s | JNum i \<Rightarrow> str_int i | JOther text \<Rightarrow> text)"

type_synonym request = "string \<rightharpoonup> json"

definition get_field :: "request \<Rightarrow> string \<Rightarrow> json \<Rightarrow> json" where
  "get_field request key dflt = (case request key of None \<Rightarrow> dflt | Some v \<Rightarrow> v)"

text \<open>
  \<open>subprocess.run\<close>: the process completes with a return code and its two outputs, or
  the call raises \<open>TimeoutExpired\<close>, or another exception.
\<close>

datatype process_outcome = Completed int string string | TimeoutExpired | RunFailed string

datatype agent_response =
    ExecuteResponse bool string string int
  | FilesResponse "string option" "string list"
  | ErrorResponse string

definition handle_execute :: "(json \<Rightarrow> json \<Rightarrow> process_outcome) \<Rightarrow> request \<Rightarrow> agent_response" where
  "handle_execute run request =
     (let code = get_field request ''code'' (JStr []);
          timeout = get_field request ''timeout'' (JNum 30)
      in case run code timeout of
           Completed returncode out err \<Rightarrow> ExecuteResponse (returncode = 0) out err returncode
         | TimeoutExpired \<Rightarrow>
             ExecuteResponse False []
               (''Execution timeout after '' @ json_str timeout @ '' seconds'') (- 1)
         | RunFailed text \<Rightarrow> ExecuteResponse False [] text (- 1))"

text \<open>
  What the guest's file system holds at a path: nothing; something whose status cannot be
  read (\<open>exists\<close> or \<open>is_file\<close> raises); something that is not a regular file; or a
  regular file, with its bytes or the text of the exception \<open>read_bytes\<close> raises.
\<close>

datatype fs_entry = Missing | Inaccessible | NotRegular | Regular "string + bytes"

datatype dir_listing = NoSuchPath | Listing "string list" | ListingFails string

text \<open>
  A connection: the bytes the peer sends before it closes, not yet read, and the bytes
  sent to the peer so far. Sending succeeds.
\<close>

record connection =
  inbox :: bytes
  outbox :: bytes

definition recv_exact :: "connection \<Rightarrow> nat \<Rightarrow> bytes \<times> connection" where
  "recv_exact sock len = (take len (inbox sock), sock\<lparr>inbox := drop len (inbox sock)\<rparr>)"

definition sendall :: "connection \<Rightarrow> bytes \<Rightarrow> connection" where
  "sendall sock data = sock\<lparr>outbox := outbox sock @ data\<rparr>"

text \<open>
  \<open>struct.pack('!I', n)\<close> and \<open>struct.unpack('!I', data)\<close>: four bytes, most
  significant first; both raise \<open>struct.error\<close> outside their range.
\<close>

definition be32 :: "nat \<Rightarrow> bytes" where
  "be32 n =
     [char_of (n div 16777216 mod 256), char_of (n div 65536 mod 256),
      char_of (n div 256 mod 256), char_of (n mod 256)]"

definition pack_be32 :: "nat \<Rightarrow> bytes option" where
  "pack_be32 n = (if n < 4294967296 then Some (be32 n) else None)"

definition unpack_be32 :: "bytes \<Rightarrow> nat option" where
  "unpack_be32 data =
     (case data of
        [b3, b2, b1, b0] \<Rightarrow>
          Some (of_char b3 * 16777216 + of_char b2 * 65536 + of_char b1 * 256 + of_char b0)
      | _ \<Rightarrow> None)"

definition send_response ::
  "(agent_response \<Rightarrow> bytes) \<Rightarrow> connection \<Rightarrow> agent_response \<Rightarrow> connection option" where
  "send_response json_dumps sock response =
     (let response_data = json_dumps response
      in case pack_be32 (length response_data) of
           None \<Rightarrow> None
         | Some header \<Rightarrow> Some (sendall sock (header @ response_data)))"

text \<open>
  \<open>handle_list_files\<close> and \<open>handle_get_file\<close> build a \<open>Path\<close> from the request's
  \<open>path\<close> before their \<open>try\<close>: a value that is not a string raises there, and the
  result is \<open>None\<close>.
\<close>

definition handle_list_files :: "(string \<Rightarrow> dir_listing) \<Rightarrow> request \<Rightarrow> agent_response option" where
  "handle_list_files list_dir request =
     (case get_field request ''path'' (JStr ''/tmp/output'') of
        JStr path \<Rightarrow>
          Some (case list_dir path of
                  NoSuchPath \<Rightarrow> FilesResponse None []
                | Listing names \<Rightarrow> FilesResponse None names
                | ListingFails text \<Rightarrow> FilesResponse (Some text) [])
      | _ \<Rightarrow> None)"

definition handle_get_file :: "(string \<Rightarrow> fs_entry) \<Rightarrow> request \<Rightarrow> connection \<Rightarrow> connection option" where
  "handle_get_file fs request sock =
     (case get_field request ''path'' (JStr []) of
        JStr file_path \<Rightarrow>
          Some (case fs file_path of
                  Regular (Inr content) \<Rightarrow>
                    (case pack_be32 (length content) of
                       Some header \<Rightarrow> sendall sock (header @ content)
                     | None \<Rightarrow> sendall sock (be32 0))
                | _ \<Rightarrow> sendall sock (be32 0))
      | _ \<Rightarrow> None)"

text \<open>
  \<open>handle_request\<close>: the boolean tells the caller whether to go on reading requests
  from the connection. \<open>json_loads\<close> is \<open>None\<close> when decoding or parsing raises or
  the value is not a dictionary; every exception ends in the outer \<open>except\<close>.
\<close>

definition handle_request ::
  "(json \<Rightarrow> json \<Rightarrow> process_outcome) \<Rightarrow> (string \<Rightarrow> fs_entry) \<Rightarrow> (string \<Rightarrow> dir_listing) \<Rightarrow>
   (bytes \<Rightarrow> request option) \<Rightarrow> (agent_response \<Rightarrow> bytes) \<Rightarrow> connection \<Rightarrow> bool \<times> connection" where
  "handle_request run fs list_dir json_loads json_dumps sock =
     (case recv_exact sock 4 of
        (length_data, sock1) \<Rightarrow>
          if length_data = [] then (False, sock1)
          else
            (case unpack_be32 length_data of
               None \<Rightarrow> (False, sock1)
             | Some request_length \<Rightarrow>
                 (case recv_exact sock1 request_length of
                    (request_data, sock2) \<Rightarrow>
                      if request_data = [] then (False, sock2)
                      else
                        (case json_loads request_data of
                           None \<Rightarrow> (False, sock2)
                         | Some request \<Rightarrow>
                             (let action = get_field request ''action'' (JStr []);
                                  reply =
                                    (if action = JStr ''execute''
                                     then send_response json_dumps sock2 (handle_execute run request)
                                     else if action = JStr ''list_files''
                                     then (case handle_list_files list_dir request of
                                             None \<Rightarrow> None
                                           | Some response \<Rightarrow>
                                               send_response json_dumps sock2 response)
                                     else if action = JStr ''get_file''
                                     then handle_get_file fs request sock2
                                     else send_response json_dumps sock2
                                            (ErrorResponse
                                               (''Unknown action: '' @ json_str action)))
                              in case reply of
                                   None \<Rightarrow> (False, sock2)
                                 | Some sock3 \<Rightarrow> (True, sock3))))))"

text \<open>
  The loop of \<open>run\<close> on one accepted connection: requests are handled until
  \<open>handle_request\<close> returns false, then the connection is closed. Each handled
  request consumes bytes of the inbox, so the loop ends.
\<close>

lemma inbox_sendall [simp]: "inbox (sendall sock data) = inbox sock"
  by (simp add: sendall_def)






section \<open>The contracts of the components, in the words of the specification\<close>



text \<open>
  The module names that a node imports, as written in the source text: each alias of an
  \<open>import\<close> statement and the module of a \<open>from ... import\<close> statement that names one.
  A reference is forbidden when its text before the first dot is in the forbidden set.
\<close>

definition module_references :: "node \<Rightarrow> string list" where
  "module_references nd =
     (case nd of
        Import names \<Rightarrow> map alias_name names
      | ImportFrom module names level \<Rightarrow>
          (case module of None \<Rightarrow> [] | Some m \<Rightarrow> if m = [] then [] else [m])
      | _ \<Rightarrow> [])"

definition is_forbidden :: "settings \<Rightarrow> string \<Rightarrow> bool" where
  "is_forbidden cfg r = (first_component r \<in> FORBIDDEN_IMPORTS cfg)"

definition forbidden_references :: "settings \<Rightarrow> node \<Rightarrow> string list" where
  "forbidden_references cfg tree =
     filter (is_forbidden cfg) (concat (map module_references (walk tree)))"

definition is_warning :: "string \<Rightarrow> bool" where
  "is_warning err = startswith err ''Warning:''"

definition moduleless_import :: "node \<Rightarrow> bool" where
  "moduleless_import nd =
     (case nd of
        Import names \<Rightarrow> False
      | ImportFrom module names level \<Rightarrow> module = None
      | _ \<Rightarrow> True)"

text \<open>
  The entries that bounded file extraction passes over: directories and other members
  that are not regular files, dotfiles, entries above the per-file ceiling, and zero-byte
  entries. A plain file is a regular, non-empty entry within the per-file ceiling whose
  content has the size its header declares and which the storage collaborator stores,
  giving one URL.
\<close>

definition dotfile :: "tar_member \<Rightarrow> bool" where
  "dotfile m = startswith (path_name (member_name m)) ''.''"

definition zero_byte :: "tar_member \<Rightarrow> bool" where
  "zero_byte m =
     (member_size m = 0 \<and> (case file_content m of None \<Rightarrow> True | Some content \<Rightarrow> content = []))"

definition skipped_entry :: "settings \<Rightarrow> tar_member \<Rightarrow> bool" where
  "skipped_entry cfg m =
     (\<not> isfile m \<or> dotfile m \<or> member_size m > MAX_FILE_SIZE cfg \<or> zero_byte m)"

definition member_urls :: "storage_manager \<Rightarrow> string \<Rightarrow> tar_member \<Rightarrow> string list" where
  "member_urls sm execution_id m =
     (case file_content m of
        None \<Rightarrow> []
      | Some content \<Rightarrow> saved_url sm execution_id m (path_name (member_name m)) content)"

definition plain_file :: "settings \<Rightarrow> storage_manager \<Rightarrow> string \<Rightarrow> tar_member \<Rightarrow> bool" where
  "plain_file cfg sm execution_id m =
     (isfile m \<and> \<not> dotfile m \<and> member_size m \<le> MAX_FILE_SIZE cfg \<and>
      (case file_content m of
         None \<Rightarrow> False
       | Some content \<Rightarrow> content \<noteq> [] \<and> length content = member_size m) \<and>
      length (member_urls sm execution_id m) = 1)"

text \<open>
  The instance that creating a provider yields: the cached one, else the one its
  registered class constructs. A provider is usable when that instance exists and
  reports healthy. The fallback candidates are the configured fallback list, in order,
  without the primary provider and without unregistered names.
\<close>

definition resolve :: "registry \<Rightarrow> instances \<Rightarrow> string \<Rightarrow> executor_instance option" where
  "resolve reg insts provider =
     (case insts provider of
        Some executor \<Rightarrow> Some executor
      | None \<Rightarrow>
          (case map_of reg provider of
             Some (Inr executor) \<Rightarrow> Some executor
           | _ \<Rightarrow> None))"

definition usable :: "registry \<Rightarrow> instances \<Rightarrow> string \<Rightarrow> bool" where
  "usable reg insts provider =
     (case resolve reg insts provider of
        Some executor \<Rightarrow> is_healthy executor
      | None \<Rightarrow> False)"

definition fallback_candidates :: "settings \<Rightarrow> registry \<Rightarrow> string list" where
  "fallback_candidates cfg reg =
     filter (\<lambda>provider. provider \<noteq> EXECUTOR_PROVIDER cfg \<and> has_provider reg provider)
       (parse_fallback_providers (EXECUTOR_FALLBACK_PROVIDERS cfg))"

text \<open>
  What the fallback loop leaves, relative to the cache \<open>insts0\<close> the search started
  from: the cache has only grown, by instances that \<open>resolve\<close> already gave, and the
  loop has returned the instance of the first usable candidate, or nothing.
\<close>

definition fallback_outcome ::
  "settings \<Rightarrow> registry \<Rightarrow> string \<Rightarrow> instances \<Rightarrow> string list \<Rightarrow> instances \<Rightarrow> instances \<Rightarrow> bool" where
  "fallback_outcome cfg reg primary insts0 fbs insts insts' =
     ((\<forall>q. resolve reg insts' q = resolve reg insts0 q)
      \<and> (\<forall>q executor. insts q = Some executor \<longrightarrow> insts' q = Some executor)
      \<and> (case find (\<lambda>provider. (provider \<noteq> primary \<and> has_provider reg provider)
                                   \<and> usable reg insts0 provider) fbs of
            Some provider \<Rightarrow>
              (\<exists>executor. resolve reg insts0 provider = Some executor
                 \<and> insts' provider = Some executor
                 \<and> try_fallbacks cfg reg primary fbs insts = (Some executor, insts'))
          | None \<Rightarrow> try_fallbacks cfg reg primary fbs insts = (None, insts')))"

section \<open>Example snippets and their trees\<close>

text \<open>
  Snippets in the style of the repository's tests, with the trees \<open>ast.parse\<close> builds for
  them (\<open>Pass\<close>, \<open>Assign\<close> and \<open>Expr\<close> are \<open>Other\<close> nodes).
\<close>

definition os_and_chain_code :: string where
  "os_and_chain_code =
     ''import os'' @ [CHR 0x0A] @ ''x = a and a and a and a and a and a and a and a and a and a and a and a and a and a and a and a and a and a and a and a and a and a''"

definition os_and_chain_tree :: node where
  "os_and_chain_tree =
     Module [Import [Alias ''os'' None],
             Other [Name ''x'', BoolOp And [Name ''a'', Name ''a'', Name ''a'', Name ''a'', Name ''a'', Name ''a'', Name ''a'', Name ''a'', Name ''a'', Name ''a'', Name ''a'', Name ''a'', Name ''a'', Name ''a'', Name ''a'', Name ''a'', Name ''a'', Name ''a'', Name ''a'', Name ''a'', Name ''a'', Name ''a'']]]"

definition loop_code :: string where
  "loop_code = [CHR 0x0A] @ ''while True:'' @ [CHR 0x0A] @ ''    pass'' @ [CHR 0x0A]"

definition loop_tree :: node where
  "loop_tree = Module [While (Constant CTrue) [Other []] []]"

definition os_loop_code :: string where
  "os_loop_code = ''import os'' @ [CHR 0x0A] @ ''while True:'' @ [CHR 0x0A] @ ''    pass''"

definition os_loop_tree :: node where
  "os_loop_tree = Module [Import [Alias ''os'' None], While (Constant CTrue) [Other []] []]"

definition and_chain_code :: string where
  "and_chain_code =
     ''x = a and a and a and a and a and a and a and a and a and a and a and a and a and a and a and a and a and a and a and a and a and a''"

definition and_chain_tree :: node where
  "and_chain_tree =
     Module [Other [Name ''x'', BoolOp And [Name ''a'', Name ''a'', Name ''a'', Name ''a'',
       Name ''a'', Name ''a'', Name ''a'', Name ''a'', Name ''a'', Name ''a'', Name ''a'',
       Name ''a'', Name ''a'', Name ''a'', Name ''a'', Name ''a'', Name ''a'', Name ''a'',
       Name ''a'', Name ''a'', Name ''a'', Name ''a'']]]"

definition os_twice_code :: string where
  "os_twice_code = ''import os'' @ [CHR 0x0A] @ ''import os''"

definition os_twice_tree :: node where
  "os_twice_tree = Module [Import [Alias ''os'' None], Import [Alias ''os'' None]]"

definition long_os_code :: string where
  "long_os_code = ''import os'' @ replicate 50000 (CHR 0x0A)"

definition os_tree :: node where
  "os_tree = Module [Import [Alias ''os'' None]]"

definition from_dot_import_os_code :: string where
  "from_dot_import_os_code = ''from . import os''"

definition from_dot_import_os_tree :: node where
  "from_dot_import_os_tree = Module [ImportFrom None [Alias ''os'' None] 1]"

definition os_system_code :: string where
  "os_system_code = ''import os'' @ [CHR 0x0A] @ ''os.system('' @ [CHR 0x27] @ ''ls'' @ [CHR 0x27] @ '')''"

definition os_system_tree :: node where
  "os_system_tree =
     Module [Import [Alias ''os'' None],
             Other [Call (Other [Name ''os'']) [Constant (CStr ''ls'')] []]]"

definition os_sys_code :: string where
  "os_sys_code = ''import os'' @ [CHR 0x0A] @ ''import sys''"

definition os_sys_tree :: node where
  "os_sys_tree = Module [Import [Alias ''os'' None], Import [Alias ''sys'' None]]"

text \<open>
  A storage collaborator that stores every file, thirteen two-byte files, and a file one
  byte above the default per-file ceiling.
\<close>

definition accepting_storage :: storage_manager where
  "accepting_storage =
     \<lparr> is_enabled = True,
       save_file = (\<lambda>content filename execution_id original_path.
                      Inr (Some (''sandbox/'' @ execution_id @ ''/'' @ filename))),
       generate_presigned_url = (\<lambda>file_path. Inr (''https://r2.example/'' @ file_path)) \<rparr>"

definition small_file :: "string \<Rightarrow> tar_member" where
  "small_file nm =
     \<lparr> member_name = ''output/'' @ nm, isfile = True, member_size = 2,
       file_content = Some ''ok'' \<rparr>"

definition big_file :: tar_member where
  "big_file =
     \<lparr> member_name = ''output/big.bin'', isfile = True, member_size = 10485761,
       file_content = Some (replicate 10485761 (CHR 0x00)) \<rparr>"

definition thirteen_files :: "tar_member list" where
  "thirteen_files =
     map small_file [''a'', ''b'', ''c'', ''d'', ''e'', ''f'', ''g'', ''h'', ''i'', ''j'',
                     ''k'', ''l'', ''m'']"

text \<open>
  A container run of \<open>print(undefined_name)\<close>: the container starts, exits with status
  1, and its error output holds the interpreter's message; there is no output directory.
\<close>

definition name_error_text :: string where
  "name_error_text =
     ''NameError: name '' @ [CHR 0x27] @ ''undefined_name'' @ [CHR 0x27] @ '' is not defined''
       @ [CHR 0x0A]"

definition runtime_error_run :: container_run where
  "runtime_error_run =
     \<lparr> run_raises = None,
       wait_result = Inr 1,
       stdout_logs = Inr [],
       stderr_logs = Inr name_error_text,
       output_archive = Inl (OtherException ''404 Client Error: Not Found'') \<rparr>"










text \<open>
  A configuration with \<open>firecracker\<close> as primary provider and a fallback list naming an
  unregistered provider; a registry whose primary is unhealthy and whose fallback is
  healthy, and one whose fallback fails to construct.
\<close>

definition firecracker_first :: settings where
  "firecracker_first =
     default_settings\<lparr>EXECUTOR_PROVIDER := ''firecracker'',
                        EXECUTOR_FALLBACK_PROVIDERS := ''firecracker, gvisor, docker''\<rparr>"

definition unhealthy_firecracker :: executor_instance where
  "unhealthy_firecracker = \<lparr>get_name = ''firecracker'', health_check = Inr False\<rparr>"

definition healthy_docker :: executor_instance where
  "healthy_docker = \<lparr>get_name = ''docker'', health_check = Inr True\<rparr>"

definition two_providers :: registry where
  "two_providers =
     register ''firecracker'' (Inr unhealthy_firecracker)
       (register ''docker'' (Inr healthy_docker) [])"

definition docker_down :: registry where
  "docker_down =
     register ''firecracker'' (Inr unhealthy_firecracker)
       (register ''docker'' (Inl ''Failed to initialize Docker client'') [])"

definition from_dot_os_code :: string where
  "from_dot_os_code = ''from .os import path''"

definition from_dot_os_tree :: node where
  "from_dot_os_tree = Module [ImportFrom (Some ''os'') [Alias ''path'' None] 1]"

section \<open>Properties of the validator\<close>

lemmas validator_defs =
  validate_def check_imports_def imports_step_def check_patterns_def patterns_step_def
  calculate_complexity_def complexity_step_def walk_def first_component_def
  forbidden_error_def warning_entry_def complexity_error_def length_error_def
  syntax_error_msg_def str_lineno_def str_int_def table_parser_def dangerous_builtins_def

lemmas example_defs =
  default_settings_def loop_code_def loop_tree_def os_loop_code_def os_loop_tree_def
  os_and_chain_code_def os_and_chain_tree_def and_chain_code_def and_chain_tree_def
  os_twice_code_def os_twice_tree_def os_tree_def from_dot_import_os_code_def
  from_dot_import_os_tree_def os_sys_code_def os_sys_tree_def






lemma imports_step_references:
  "imports_step cfg found nd = found @ filter (is_forbidden cfg) (module_references nd)"
  by (cases nd)
     (simp_all add: imports_step_def module_references_def is_forbidden_def filter_map comp_def
        split: option.splits)

lemma foldl_imports_step:
  "foldl (imports_step cfg) found ns =
     found @ filter (is_forbidden cfg) (concat (map module_references ns))"
  by (induction ns arbitrary: found) (simp_all add: imports_step_references)

lemma check_imports_references: "check_imports cfg tree = forbidden_references cfg tree"
  by (simp add: check_imports_def forbidden_references_def foldl_imports_step)

lemma is_warning_entry [simp]: "is_warning (warning_entry w)"
  by (simp add: is_warning_def warning_entry_def startswith_def)

lemma not_warning_forbidden [simp]: "\<not> is_warning (forbidden_error imp)"
  by (simp add: is_warning_def forbidden_error_def startswith_def)

lemma not_warning_complexity [simp]: "\<not> is_warning (complexity_error cfg c)"
  by (simp add: is_warning_def complexity_error_def startswith_def)

lemma not_warning_length [simp]: "\<not> is_warning (length_error cfg)"
  by (simp add: is_warning_def length_error_def startswith_def)

lemma not_warning_syntax [simp]: "\<not> is_warning (syntax_error_msg e)"
  by (cases e) (simp_all add: is_warning_def syntax_error_msg_def startswith_def)

lemma filter_warning_entries [simp]: "filter is_warning (map warning_entry ws) = map warning_entry ws"
  by (induction ws) simp_all

lemma filter_warning_forbidden [simp]: "filter is_warning (map forbidden_error rs) = []"
  by (induction rs) simp_all

lemma validate_cases:
  "validate cfg p code =
     (if length code > MAX_CODE_LENGTH cfg then (False, [length_error cfg])
      else case p code of
        Inl e \<Rightarrow> (False, [syntax_error_msg e])
      | Inr tree \<Rightarrow>
          if check_imports cfg tree \<noteq> [] then (False, map forbidden_error (check_imports cfg tree))
          else if calculate_complexity tree > int (MAX_COMPLEXITY cfg)
            then (False, map warning_entry (check_patterns tree)
                         @ [complexity_error cfg (calculate_complexity tree)])
            else (True, map warning_entry (check_patterns tree)))"
  by (simp add: validate_def Let_def split: sum.splits)

text \<open>
  Claim C3, as the code has it. \<open>validate\<close> accepts exactly when the length check, the
  parse, the forbidden-import check and the complexity check all pass. The warnings of
  the pattern pass are in the returned list whenever the first three of these passed,
  also when the complexity check then fails; when the length check, the parse or the
  forbidden-import check fails, \<open>validate\<close> returns at once and the list holds no
  warning.
\<close>

theorem validate_ok_iff_and_warnings:
  "(fst (validate cfg p code) \<longleftrightarrow>
      length code \<le> MAX_CODE_LENGTH cfg \<and>
      (\<exists>tree. p code = Inr tree \<and> check_imports cfg tree = [] \<and>
                calculate_complexity tree \<le> int (MAX_COMPLEXITY cfg)))
   \<and> (\<forall>tree. length code \<le> MAX_CODE_LENGTH cfg \<and> p code = Inr tree \<and>
               check_imports cfg tree = [] \<longrightarrow>
          filter is_warning (snd (validate cfg p code)) = map warning_entry (check_patterns tree))
   \<and> (length code > MAX_CODE_LENGTH cfg \<or> (\<exists>e. p code = Inl e) \<or>
        (\<exists>tree. p code = Inr tree \<and> check_imports cfg tree \<noteq> []) \<longrightarrow>
          filter is_warning (snd (validate cfg p code)) = [])"
  by (auto simp add: validate_cases split: sum.splits)

theorem validate_ok_iff_and_warnings_witness:
  "fst (validate default_settings (table_parser [(loop_code, loop_tree)]) loop_code)
   \<and> filter is_warning (snd (validate default_settings (table_parser [(loop_code, loop_tree)]) loop_code))
       = [''Warning: Potential infinite loop detected (while True)'']"
proof -
  have len: "length loop_code \<le> MAX_CODE_LENGTH default_settings"
    by (simp add: example_defs)
  have parsed: "table_parser [(loop_code, loop_tree)] loop_code = Inr loop_tree"
    by (simp add: table_parser_def)
  have no_imports: "check_imports default_settings loop_tree = []"
    by (simp add: validator_defs example_defs)
  have complexity: "calculate_complexity loop_tree \<le> int (MAX_COMPLEXITY default_settings)"
    by (simp add: validator_defs example_defs)
  have patterns: "map warning_entry (check_patterns loop_tree)
      = [''Warning: Potential infinite loop detected (while True)'']"
    by (simp add: validator_defs example_defs)
  show ?thesis
    using validate_ok_iff_and_warnings
      [of default_settings "table_parser [(loop_code, loop_tree)]" loop_code]
      len parsed no_imports complexity patterns
    by auto
qed

text \<open>
  The snippet \<open>import os\<close> followed by \<open>while True: pass\<close> parses, its pattern pass
  finds the infinite loop, and the list returned holds the forbidden import alone.
\<close>

theorem warnings_dropped_counterexample:
  "table_parser [(os_loop_code, os_loop_tree)] os_loop_code = Inr os_loop_tree
   \<and> check_patterns os_loop_tree = [''Potential infinite loop detected (while True)'']
   \<and> validate default_settings (table_parser [(os_loop_code, os_loop_tree)]) os_loop_code
       = (False, [''Forbidden import: os''])"
  by (simp add: validator_defs example_defs)





text \<open>
  Claim C4, as the code has it. For a code string that parses, is within the length limit
  and holds a forbidden import reference, validation fails and the list returned is one
  error for each forbidden reference, in the order of the walk, counted per occurrence.
\<close>

theorem forbidden_imports_reported:
  "ast_parse code = Inr tree \<Longrightarrow> length code \<le> MAX_CODE_LENGTH cfg \<Longrightarrow>
   forbidden_references cfg tree \<noteq> [] \<Longrightarrow>
   validate cfg ast_parse code = (False, map forbidden_error (forbidden_references cfg tree))"
  by (simp add: validate_cases check_imports_references)

theorem forbidden_imports_reported_witness:
  "validate default_settings (table_parser [(os_twice_code, os_twice_tree)]) os_twice_code
     = (False, map forbidden_error [''os'', ''os''])"
proof -
  have p: "table_parser [(os_twice_code, os_twice_tree)] os_twice_code = Inr os_twice_tree"
    by (simp add: table_parser_def)
  have l: "length os_twice_code \<le> MAX_CODE_LENGTH default_settings"
    by (simp add: os_twice_code_def default_settings_def)
  have r: "forbidden_references default_settings os_twice_tree = [''os'', ''os'']"
    by (simp add: forbidden_references_def module_references_def is_forbidden_def walk_def
        first_component_def os_twice_tree_def default_settings_def)
  from forbidden_imports_reported
    [of "table_parser [(os_twice_code, os_twice_tree)]" os_twice_code os_twice_tree
      default_settings] p l r
  show ?thesis by simp
qed

text \<open>
  Importing \<open>os\<close> twice gives two errors for the one module referred to; a snippet
  longer than the maximum length that imports \<open>os\<close> gives the length error and no
  forbidden-import error.
\<close>

theorem forbidden_imports_counterexample:
  "table_parser [(os_twice_code, os_twice_tree)] os_twice_code = Inr os_twice_tree
   \<and> remdups (forbidden_references default_settings os_twice_tree) = [''os'']
   \<and> validate default_settings (table_parser [(os_twice_code, os_twice_tree)]) os_twice_code
       = (False, [''Forbidden import: os'', ''Forbidden import: os''])
   \<and> length long_os_code = 50009
   \<and> table_parser [(long_os_code, os_tree)] long_os_code = Inr os_tree
   \<and> forbidden_references default_settings os_tree = [''os'']
   \<and> validate default_settings (table_parser [(long_os_code, os_tree)]) long_os_code
       = (False, [''Code exceeds maximum length of 50000 characters''])"
proof -
  have long: "length long_os_code = 50009"
    by (simp add: long_os_code_def)
  then have "length long_os_code > MAX_CODE_LENGTH default_settings"
    by (simp add: default_settings_def)
  then have "validate default_settings (table_parser [(long_os_code, os_tree)]) long_os_code
       = (False, [''Code exceeds maximum length of 50000 characters''])"
    by (simp add: validate_def length_error_def default_settings_def str_nat.simps digit_char_def)
  moreover have "validate default_settings (table_parser [(os_twice_code, os_twice_tree)]) os_twice_code
       = (False, [''Forbidden import: os'', ''Forbidden import: os''])"
    by (simp add: validator_defs os_twice_code_def os_twice_tree_def default_settings_def)
  moreover have "remdups (forbidden_references default_settings os_twice_tree) = [''os'']"
    by (simp add: forbidden_references_def module_references_def is_forbidden_def walk_def
        first_component_def os_twice_tree_def default_settings_def)
  moreover have "forbidden_references default_settings os_tree = [''os'']"
    by (simp add: forbidden_references_def module_references_def is_forbidden_def walk_def
        first_component_def os_tree_def default_settings_def)
  ultimately show ?thesis using long by (simp add: table_parser_def)
qed

lemma forbidden_references_moduleless:
  "\<forall>nd \<in> set ns. moduleless_import nd \<Longrightarrow> concat (map module_references ns) = []"
proof (induction ns)
  case Nil
  show ?case by simp
next
  case (Cons n ns)
  then have "moduleless_import n" by simp
  then have "module_references n = []"
    by (cases n) (simp_all add: moduleless_import_def module_references_def)
  with Cons show ?case by simp
qed

lemma not_forbidden_prefix_warning: "\<not> startswith (warning_entry w) ''Forbidden import''"
  by (simp add: startswith_def warning_entry_def)

lemma not_forbidden_prefix_complexity: "\<not> startswith (complexity_error cfg c) ''Forbidden import''"
  by (simp add: startswith_def complexity_error_def)

lemma not_forbidden_prefix_length: "\<not> startswith (length_error cfg) ''Forbidden import''"
  by (simp add: startswith_def length_error_def)

text \<open>
  Claim C10, as the code has it. When every import node of the parsed tree is a
  \<open>from ... import\<close> node that carries no module name (\<open>from . import x\<close>), the
  import check finds nothing and no message returned by \<open>validate\<close> is a
  forbidden-import error, whatever names are imported.
\<close>

theorem moduleless_imports_not_reported:
  assumes "ast_parse code = Inr tree"
    and "\<forall>nd \<in> set (walk tree). moduleless_import nd"
  shows "check_imports cfg tree = []
    \<and> (\<forall>err \<in> set (snd (validate cfg ast_parse code)). \<not> startswith err ''Forbidden import'')"
proof -
  have none: "check_imports cfg tree = []"
    using assms(2)
    by (simp add: check_imports_references forbidden_references_def forbidden_references_moduleless)
  have "\<not> startswith err ''Forbidden import''"
    if "err \<in> set (snd (validate cfg ast_parse code))" for err
    using that assms(1) none
    by (auto simp add: validate_cases not_forbidden_prefix_warning
        not_forbidden_prefix_complexity not_forbidden_prefix_length split: if_splits)
  with none show ?thesis by blast
qed

theorem moduleless_imports_not_reported_witness:
  "check_imports default_settings from_dot_import_os_tree = []
   \<and> validate default_settings
        (table_parser [(from_dot_import_os_code, from_dot_import_os_tree)])
        from_dot_import_os_code = (True, [])"
proof -
  have p: "table_parser [(from_dot_import_os_code, from_dot_import_os_tree)]
      from_dot_import_os_code = Inr from_dot_import_os_tree"
    by (simp add: table_parser_def)
  have m: "\<forall>nd \<in> set (walk from_dot_import_os_tree). moduleless_import nd"
    by (simp add: walk_def from_dot_import_os_tree_def moduleless_import_def)
  have v: "validate default_settings
        (table_parser [(from_dot_import_os_code, from_dot_import_os_tree)])
        from_dot_import_os_code = (True, [])"
    by (simp add: validator_defs from_dot_import_os_code_def from_dot_import_os_tree_def
        default_settings_def)
  from moduleless_imports_not_reported
    [of "table_parser [(from_dot_import_os_code, from_dot_import_os_tree)]"
      from_dot_import_os_code from_dot_import_os_tree default_settings] p m v
  show ?thesis by simp
qed

text \<open>
  The relative import \<open>from .os import path\<close> parses to a \<open>from ... import\<close> node
  of level 1 that carries the module name \<open>os\<close>; it is checked by that name and
  reported.
\<close>

theorem relative_import_with_module_counterexample:
  "table_parser [(from_dot_os_code, from_dot_os_tree)] from_dot_os_code = Inr from_dot_os_tree
   \<and> validate default_settings (table_parser [(from_dot_os_code, from_dot_os_tree)])
        from_dot_os_code = (False, [''Forbidden import: os''])"
  by (simp add: validator_defs from_dot_os_code_def from_dot_os_tree_def default_settings_def)

section \<open>Properties of the execution service\<close>

lemma join_contains: "e \<in> set xs \<Longrightarrow> \<exists>pre post. join sep xs = pre @ e @ post"
proof (induction sep xs rule: join.induct)
  case (1 sep)
  then show ?case by simp
next
  case (2 sep x)
  then have "join sep [x] = [] @ e @ []" by simp
  then show ?case by blast
next
  case (3 sep x y ys)
  show ?case
  proof (cases "e = x")
    case True
    then have "join sep (x # y # ys) = [] @ e @ (sep @ join sep (y # ys))" by simp
    then show ?thesis by blast
  next
    case False
    with 3 obtain pre post where "join sep (y # ys) = pre @ e @ post" by auto
    then have "join sep (x # y # ys) = (x @ sep @ pre) @ e @ post" by simp
    then show ?thesis by blast
  qed
qed

lemma service_filter: "(\<lambda>err. \<not> startswith err ''Warning:'') = (\<lambda>err. \<not> is_warning err)"
  by (simp add: is_warning_def)

lemma execute_code_valid:
  "fst (validate cfg p code) \<Longrightarrow>
   execute_code cfg p (Inr execute) code timeout st =
     (Inr (execute code timeout),
      st\<lparr>executor_loaded := True, execute_calls := execute_calls st @ [(code, timeout)]\<rparr>)"
  by (cases "validate cfg p code") (simp add: execute_code_def)

text \<open>
  Claim C2. When \<open>validate\<close> rejects the code, \<open>execute_code\<close> raises a validation error
  whose text joins every message of \<open>validate\<close> that is not a warning (so each of them
  occurs in the text), the service state is returned as it was, and the record of backend
  calls has not grown.
\<close>

theorem validation_failure_stops_before_backend:
  assumes "\<not> fst (validate cfg p code)"
  shows "(\<exists>msg. execute_code cfg p get_executor code timeout st = (Inl (ValidationError msg), st)
            \<and> msg = ''Validation failed: ''
                  @ join ''; '' (filter (\<lambda>err. \<not> is_warning err) (snd (validate cfg p code)))
            \<and> (\<forall>err \<in> set (snd (validate cfg p code)).
                  \<not> is_warning err \<longrightarrow> (\<exists>pre post. msg = pre @ err @ post)))
         \<and> execute_calls (snd (execute_code cfg p get_executor code timeout st)) = execute_calls st"
proof -
  let ?errs = "filter (\<lambda>err. \<not> is_warning err) (snd (validate cfg p code))"
  let ?msg = "''Validation failed: '' @ join ''; '' ?errs"
  have run: "execute_code cfg p get_executor code timeout st = (Inl (ValidationError ?msg), st)"
    using assms by (cases "validate cfg p code") (simp add: execute_code_def service_filter)
  have "\<exists>pre post. ?msg = pre @ err @ post"
    if "err \<in> set (snd (validate cfg p code))" and "\<not> is_warning err" for err
  proof -
    from that have "err \<in> set ?errs" by simp
    then obtain pre post where "join ''; '' ?errs = pre @ err @ post"
      using join_contains by blast
    then have "?msg = (''Validation failed: '' @ pre) @ err @ post" by simp
    then show ?thesis by blast
  qed
  with run show ?thesis by simp
qed

theorem validation_failure_stops_before_backend_witness:
  "execute_code default_settings (table_parser [(os_sys_code, os_sys_tree)])
     (Inr (\<lambda>code timeout. True)) os_sys_code 10 \<lparr>executor_loaded = False, execute_calls = []\<rparr>
   = (Inl (ValidationError ''Validation failed: Forbidden import: os; Forbidden import: sys''),
      \<lparr>executor_loaded = False, execute_calls = []\<rparr>)
   \<and> execute_code default_settings (table_parser [(os_system_code, os_system_tree)])
     (Inr (\<lambda>code timeout. True)) os_system_code 10
     \<lparr>executor_loaded = False, execute_calls = []\<rparr>
   = (Inl (ValidationError ''Validation failed: Forbidden import: os''),
      \<lparr>executor_loaded = False, execute_calls = []\<rparr>)"
proof -
  have v: "validate default_settings (table_parser [(os_sys_code, os_sys_tree)]) os_sys_code
      = (False, [''Forbidden import: os'', ''Forbidden import: sys''])"
    by (simp add: validator_defs os_sys_code_def os_sys_tree_def default_settings_def)
  have v': "validate default_settings (table_parser [(os_system_code, os_system_tree)])
      os_system_code = (False, [''Forbidden import: os''])"
    by (simp add: validator_defs os_system_code_def os_system_tree_def default_settings_def)
  have w: "\<not> is_warning ''Forbidden import: os''" "\<not> is_warning ''Forbidden import: sys''"
    by (simp_all add: is_warning_def startswith_def)
  from validation_failure_stops_before_backend
    [of default_settings "table_parser [(os_sys_code, os_sys_tree)]" os_sys_code
      "Inr (\<lambda>code timeout. True)" 10 "\<lparr>executor_loaded = False, execute_calls = []\<rparr>"]
  have one: "execute_code default_settings (table_parser [(os_sys_code, os_sys_tree)])
     (Inr (\<lambda>code timeout. True)) os_sys_code 10 \<lparr>executor_loaded = False, execute_calls = []\<rparr>
   = (Inl (ValidationError ''Validation failed: Forbidden import: os; Forbidden import: sys''),
      \<lparr>executor_loaded = False, execute_calls = []\<rparr>)"
    by (simp add: v w)
  from validation_failure_stops_before_backend
    [of default_settings "table_parser [(os_system_code, os_system_tree)]" os_system_code
      "Inr (\<lambda>code timeout. True)" 10 "\<lparr>executor_loaded = False, execute_calls = []\<rparr>"]
  have two: "execute_code default_settings (table_parser [(os_system_code, os_system_tree)])
     (Inr (\<lambda>code timeout. True)) os_system_code 10
     \<lparr>executor_loaded = False, execute_calls = []\<rparr>
   = (Inl (ValidationError ''Validation failed: Forbidden import: os''),
      \<lparr>executor_loaded = False, execute_calls = []\<rparr>)"
    by (simp add: v' w)
  from one two show ?thesis by blast
qed

section \<open>Properties of the container backend\<close>

text \<open>
  Claim C8. An output no longer than the configured ceiling is returned unchanged; a
  longer one is cut to the ceiling and the truncation marker is appended; in both cases
  the result is no longer than the ceiling plus the length of the marker.
\<close>

theorem truncate_output_bounded:
  "(length output \<le> MAX_OUTPUT_SIZE cfg \<longrightarrow> truncate_output cfg output = output)
   \<and> (length output > MAX_OUTPUT_SIZE cfg \<longrightarrow>
        truncate_output cfg output
          = take (MAX_OUTPUT_SIZE cfg) output @ truncation_marker (MAX_OUTPUT_SIZE cfg)
        \<and> length (truncate_output cfg output)
          = MAX_OUTPUT_SIZE cfg + length (truncation_marker (MAX_OUTPUT_SIZE cfg)))
   \<and> length (truncate_output cfg output)
       \<le> MAX_OUTPUT_SIZE cfg + length (truncation_marker (MAX_OUTPUT_SIZE cfg))"
  by (simp add: truncate_output_def Let_def)

theorem truncate_output_bounded_witness:
  "truncate_output default_settings (replicate 10241 (CHR ''x''))
     = replicate 10240 (CHR ''x'') @ [CHR 0x0A, CHR 0x0A]
         @ ''[Output truncated - exceeded 10240 bytes]''
   \<and> truncate_output default_settings ''hello world'' = ''hello world''"
proof -
  have m: "truncation_marker 10240
      = [CHR 0x0A, CHR 0x0A] @ ''[Output truncated - exceeded 10240 bytes]''"
    by (simp add: truncation_marker_def str_nat.simps digit_char_def)
  have c: "MAX_OUTPUT_SIZE default_settings = 10240"
    by (simp add: default_settings_def)
  from truncate_output_bounded [of "replicate 10241 (CHR ''x'')" default_settings]
    truncate_output_bounded [of "''hello world''" default_settings]
  show ?thesis by (simp add: m c)
qed

lemma length_saved_url: "length (saved_url sm eid m filename content) \<le> 1"
  by (simp add: saved_url_def split: sum.splits option.splits)

lemma extract_members_count_full:
  "MAX_FILE_COUNT cfg \<le> c \<Longrightarrow> extract_members cfg sm eid ms t c u = u"
  by (induction ms) (simp_all add: Let_def)

lemma extract_members_total_over:
  "MAX_TOTAL_SIZE cfg < t \<Longrightarrow> extract_members cfg sm eid ms t c u = u"
  by (induction ms) (simp_all add: Let_def)

lemma extract_members_skip:
  assumes "skipped_entry cfg m"
  shows "extract_members cfg sm eid (m # rest) t c u = extract_members cfg sm eid rest t c u"
proof (cases "MAX_FILE_COUNT cfg \<le> c \<or> MAX_TOTAL_SIZE cfg < t")
  case True
  then have "extract_members cfg sm eid (m # rest) t c u = u"
    and "extract_members cfg sm eid rest t c u = u"
    using extract_members_count_full extract_members_total_over by blast+
  then show ?thesis by simp
next
  case False
  with assms show ?thesis
    by (auto simp add: skipped_entry_def dotfile_def zero_byte_def Let_def split: option.splits)
qed

lemma extract_members_skip_middle:
  assumes "skipped_entry cfg m"
  shows "extract_members cfg sm eid (pre @ m # post) t c u
       = extract_members cfg sm eid (pre @ post) t c u"
proof (induction pre arbitrary: t c u)
  case Nil
  show ?case using extract_members_skip [OF assms] by simp
next
  case (Cons x pre)
  show ?case by (simp add: Cons Let_def split: option.splits)
qed

lemma extract_members_bounded:
  "c \<le> MAX_FILE_COUNT cfg \<Longrightarrow>
   length (extract_members cfg sm eid ms t c u) + c \<le> length u + MAX_FILE_COUNT cfg"
proof (induction ms arbitrary: t c u)
  case Nil
  then show ?case by simp
next
  case (Cons m ms)
  have skip: "length (extract_members cfg sm eid ms t c u) + c \<le> length u + MAX_FILE_COUNT cfg"
    using Cons by simp
  have extracted: "length (extract_members cfg sm eid ms (t + length content) (Suc c)
                 (u @ saved_url sm eid m filename content)) + c
              \<le> length u + MAX_FILE_COUNT cfg"
    if "\<not> MAX_FILE_COUNT cfg \<le> c" for content filename
  proof -
    from that have "Suc c \<le> MAX_FILE_COUNT cfg" by simp
    from Cons.IH [OF this, of "t + length content" "u @ saved_url sm eid m filename content"]
      length_saved_url [of sm eid m filename content]
    show ?thesis by simp
  qed
  show ?case
  proof (cases "file_content m")
    case None
    with skip Cons.prems show ?thesis by (simp add: Let_def)
  next
    case (Some content)
    with skip extracted Cons.prems show ?thesis by (simp add: Let_def)
  qed
qed

lemma extract_members_plain_prefix:
  "\<forall>m \<in> set pre. plain_file cfg sm eid m \<Longrightarrow>
   c + length pre \<le> MAX_FILE_COUNT cfg \<Longrightarrow>
   t + sum_list (map member_size pre) \<le> MAX_TOTAL_SIZE cfg \<Longrightarrow>
   extract_members cfg sm eid (pre @ rest) t c u
     = extract_members cfg sm eid rest (t + sum_list (map member_size pre)) (c + length pre)
         (u @ concat (map (member_urls sm eid) pre))"
proof (induction pre arbitrary: t c u)
  case Nil
  show ?case by simp
next
  case (Cons m pre)
  from Cons.prems(1) have pm: "plain_file cfg sm eid m" by simp
  then obtain content where content: "file_content m = Some content" "content \<noteq> []"
    "length content = member_size m"
    by (auto simp add: plain_file_def split: option.splits)
  from pm have facts: "isfile m" "\<not> startswith (path_name (member_name m)) ''.''"
    "member_size m \<le> MAX_FILE_SIZE cfg"
    by (simp_all add: plain_file_def dotfile_def)
  have urls: "saved_url sm eid m (path_name (member_name m)) content = member_urls sm eid m"
    by (simp add: member_urls_def content)
  have nonzero: "member_size m \<noteq> 0"
    using content(2) unfolding content(3) [symmetric] by simp
  have step: "extract_members cfg sm eid ((m # pre) @ rest) t c u
      = extract_members cfg sm eid (pre @ rest) (t + member_size m) (Suc c)
          (u @ member_urls sm eid m)"
    using Cons.prems(2,3) facts content urls nonzero by (simp add: Let_def)
  have "extract_members cfg sm eid (pre @ rest) (t + member_size m) (Suc c)
          (u @ member_urls sm eid m)
      = extract_members cfg sm eid rest
          (t + member_size m + sum_list (map member_size pre)) (Suc c + length pre)
          ((u @ member_urls sm eid m) @ concat (map (member_urls sm eid) pre))"
    using Cons.prems by (intro Cons.IH) simp_all
  with step show ?case by (simp add: add.assoc)
qed

lemma length_plain_urls:
  "\<forall>m \<in> set ms. plain_file cfg sm eid m \<Longrightarrow>
   length (concat (map (member_urls sm eid) ms)) = length ms"
  by (induction ms) (simp_all add: plain_file_def)

text \<open>
  Claim C7. Extraction never yields more URLs than the configured file count. When the
  archive holds that count plus three plain files and the first of them up to the count
  fit the cumulative ceiling, exactly the count is extracted, namely those first ones.
  A directory, a dotfile, an entry above the per-file ceiling or a zero-byte entry
  anywhere in the archive changes nothing from the result on the archive without it: it is
  passed over and the entries after it are treated as before. When the loop reaches a
  regular, non-hidden entry within the per-file ceiling whose size would take the
  cumulative size above its ceiling, it returns the URLs collected so far, whatever
  follows.
\<close>

theorem bounded_file_extraction:
  "length (extract_and_save_files cfg storage eid archive) \<le> MAX_FILE_COUNT cfg
   \<and> (storage = Some sm \<and> is_enabled sm \<and> (\<forall>f \<in> set ms. plain_file cfg sm eid f) \<and>
        length ms = MAX_FILE_COUNT cfg + 3 \<and>
        sum_list (map member_size (take (MAX_FILE_COUNT cfg) ms)) \<le> MAX_TOTAL_SIZE cfg \<longrightarrow>
        length (extract_and_save_files cfg storage eid (Inr ms)) = MAX_FILE_COUNT cfg \<and>
        extract_and_save_files cfg storage eid (Inr ms)
          = concat (map (member_urls sm eid) (take (MAX_FILE_COUNT cfg) ms)))
   \<and> (skipped_entry cfg m \<longrightarrow>
        extract_and_save_files cfg storage eid (Inr (pre @ m # post))
          = extract_and_save_files cfg storage eid (Inr (pre @ post)))
   \<and> (isfile m \<and> \<not> dotfile m \<and> file_count < MAX_FILE_COUNT cfg \<and>
        member_size m \<le> MAX_FILE_SIZE cfg \<and>
        total_size + member_size m > MAX_TOTAL_SIZE cfg \<longrightarrow>
        extract_members cfg sm eid (m # rest) total_size file_count file_urls = file_urls)"
proof (intro conjI impI)
  show "length (extract_and_save_files cfg storage eid archive) \<le> MAX_FILE_COUNT cfg"
    using extract_members_bounded [of 0 cfg _ eid _ 0 "[]"]
    by (simp add: extract_and_save_files_def split: option.splits sum.splits)
next
  assume h: "storage = Some sm \<and> is_enabled sm \<and> (\<forall>f \<in> set ms. plain_file cfg sm eid f) \<and>
        length ms = MAX_FILE_COUNT cfg + 3 \<and>
        sum_list (map member_size (take (MAX_FILE_COUNT cfg) ms)) \<le> MAX_TOTAL_SIZE cfg"
  let ?n = "MAX_FILE_COUNT cfg"
  have plain: "\<forall>f \<in> set (take ?n ms). plain_file cfg sm eid f"
    using h by (meson in_set_takeD)
  have len: "length (take ?n ms) = ?n" using h by simp
  have "extract_members cfg sm eid (take ?n ms @ drop ?n ms) 0 0 []
      = extract_members cfg sm eid (drop ?n ms)
          (0 + sum_list (map member_size (take ?n ms))) (0 + length (take ?n ms))
          ([] @ concat (map (member_urls sm eid) (take ?n ms)))"
    using plain len h by (intro extract_members_plain_prefix) simp_all
  also have "\<dots> = concat (map (member_urls sm eid) (take ?n ms))"
    using len by (simp add: extract_members_count_full)
  finally have run: "extract_and_save_files cfg storage eid (Inr ms)
      = concat (map (member_urls sm eid) (take ?n ms))"
    using h by (simp add: extract_and_save_files_def)
  show "extract_and_save_files cfg storage eid (Inr ms)
      = concat (map (member_urls sm eid) (take ?n ms))"
    by (rule run)
  show "length (extract_and_save_files cfg storage eid (Inr ms)) = ?n"
    using length_plain_urls [OF plain] len by (simp add: run)
next
  assume "skipped_entry cfg m"
  then show "extract_and_save_files cfg storage eid (Inr (pre @ m # post))
          = extract_and_save_files cfg storage eid (Inr (pre @ post))"
    by (simp add: extract_and_save_files_def extract_members_skip_middle split: option.splits)
next
  assume "isfile m \<and> \<not> dotfile m \<and> file_count < MAX_FILE_COUNT cfg \<and>
        member_size m \<le> MAX_FILE_SIZE cfg \<and>
        total_size + member_size m > MAX_TOTAL_SIZE cfg"
  then show "extract_members cfg sm eid (m # rest) total_size file_count file_urls = file_urls"
    by (simp add: dotfile_def Let_def)
qed

theorem bounded_file_extraction_witness:
  "length (extract_and_save_files default_settings (Some accepting_storage) ''run1''
            (Inr thirteen_files)) = 10
   \<and> extract_and_save_files default_settings (Some accepting_storage) ''run1''
        (Inr ([small_file ''a''] @ big_file # [small_file ''b'']))
       = extract_and_save_files default_settings (Some accepting_storage) ''run1''
           (Inr ([small_file ''a''] @ [small_file ''b'']))
   \<and> extract_members default_settings accepting_storage ''run1''
        (small_file ''c'' # [small_file ''d'']) 52428799 2 [''u1'', ''u2''] = [''u1'', ''u2'']"
proof -
  have plain: "\<forall>f \<in> set thirteen_files. plain_file default_settings accepting_storage ''run1'' f"
    by (simp add: thirteen_files_def plain_file_def small_file_def dotfile_def path_name_def
        startswith_def default_settings_def member_urls_def saved_url_def accepting_storage_def)
  have count: "MAX_FILE_COUNT default_settings = 10"
    by (simp add: default_settings_def)
  have premise: "Some accepting_storage = Some accepting_storage \<and> is_enabled accepting_storage \<and>
      (\<forall>f \<in> set thirteen_files. plain_file default_settings accepting_storage ''run1'' f) \<and>
      length thirteen_files = MAX_FILE_COUNT default_settings + 3 \<and>
      sum_list (map member_size (take (MAX_FILE_COUNT default_settings) thirteen_files))
        \<le> MAX_TOTAL_SIZE default_settings"
    using plain
    by (simp add: accepting_storage_def thirteen_files_def default_settings_def small_file_def)
  have skipped: "skipped_entry default_settings big_file"
    by (simp add: skipped_entry_def big_file_def default_settings_def)
  have stop: "isfile (small_file ''c'') \<and> \<not> dotfile (small_file ''c'') \<and>
      2 < MAX_FILE_COUNT default_settings \<and>
      member_size (small_file ''c'') \<le> MAX_FILE_SIZE default_settings \<and>
      52428799 + member_size (small_file ''c'') > MAX_TOTAL_SIZE default_settings"
    by (simp add: small_file_def dotfile_def path_name_def startswith_def default_settings_def)
  note inst = bounded_file_extraction
    [of default_settings "Some accepting_storage" "''run1''" "Inr thirteen_files"
      accepting_storage thirteen_files "small_file ''c''" "[]" "[]" 2 52428799
      "[small_file ''d'']" "[''u1'', ''u2'']"]
  note inst2 = bounded_file_extraction
    [of default_settings "Some accepting_storage" "''run1''" "Inr thirteen_files"
      accepting_storage thirteen_files big_file "[small_file ''a'']" "[small_file ''b'']"]
  from inst premise
  have "length (extract_and_save_files default_settings (Some accepting_storage) ''run1''
            (Inr thirteen_files)) = MAX_FILE_COUNT default_settings"
    by blast
  then have first: "length (extract_and_save_files default_settings (Some accepting_storage)
      ''run1'' (Inr thirteen_files)) = 10"
    by (simp only: count)
  from inst2 skipped
  have second: "extract_and_save_files default_settings (Some accepting_storage) ''run1''
        (Inr ([small_file ''a''] @ big_file # [small_file ''b'']))
       = extract_and_save_files default_settings (Some accepting_storage) ''run1''
           (Inr ([small_file ''a''] @ [small_file ''b'']))"
    by blast
  from inst stop
  have "extract_members default_settings accepting_storage ''run1''
        (small_file ''c'' # [small_file ''d'']) 52428799 2 [''u1'', ''u2''] = [''u1'', ''u2'']"
    by blast
  with first second show ?thesis by blast
qed

lemma docker_execute_completed:
  "run_raises env = None \<Longrightarrow> wait_result env = Inr status_code \<Longrightarrow>
   stdout_logs env = Inr out \<Longrightarrow> stderr_logs env = Inr err \<Longrightarrow>
   success (docker_execute cfg storage eid env) = True
   \<and> exit_code (docker_execute cfg storage eid env) = status_code"
  by (simp add: docker_execute_def)

text \<open>
  Claim C1 at the container backend. The run of \<open>print(undefined_name)\<close> is reported
  with exit code 1 and the error output, as a normal result, but with \<open>success\<close> true:
  the result dictionary of a completed run sets \<open>success\<close> to \<open>True\<close> whatever the
  status code.
\<close>

theorem docker_runtime_error_reported_as_success:
  "docker_execute default_settings None ''run1'' runtime_error_run
     = \<lparr> success = True, stdout = [], stderr = name_error_text, exit_code = 1,
         error = None, files = [] \<rparr>"
  by (simp add: docker_execute_def runtime_error_run_def truncate_output_def
      extract_and_save_files_def name_error_text_def default_settings_def)

section \<open>Properties of the guest agent\<close>

text \<open>
  The guest agent's \<open>execute\<close> handler does derive \<open>success\<close> from the return code.
\<close>

lemma agent_execute_nonzero_exit:
  "run (get_field request ''code'' (JStr [])) (get_field request ''timeout'' (JNum 30))
     = Completed returncode out err \<Longrightarrow>
   returncode \<noteq> 0 \<Longrightarrow>
   handle_execute run request = ExecuteResponse False out err returncode"
  by (simp add: handle_execute_def)

lemma length_be32 [simp]: "length (be32 n) = 4"
  by (simp add: be32_def)

lemma be32_nonempty [simp]: "be32 n \<noteq> []"
  by (simp add: be32_def)

lemma be32_value:
  fixes n :: nat
  shows "n div 16777216 mod 256 * 16777216 + n div 65536 mod 256 * 65536
     + n div 256 mod 256 * 256 + n mod 256 = n mod 4294967296"
proof -
  have a: "n mod 4294967296 = 16777216 * (n div 16777216 mod 256) + n mod 16777216"
    using mod_mult2_eq [of n 16777216 256] by simp
  have b: "n mod 16777216 = 65536 * (n div 65536 mod 256) + n mod 65536"
    using mod_mult2_eq [of n 65536 256] by simp
  have c: "n mod 65536 = 256 * (n div 256 mod 256) + n mod 256"
    using mod_mult2_eq [of n 256 256] by simp
  from a b c show ?thesis by simp
qed

lemma unpack_be32_be32: "n < 4294967296 \<Longrightarrow> unpack_be32 (be32 n) = Some n"
  using be32_value [of n] by (simp add: unpack_be32_def be32_def)





text \<open>
  Outside these conditions: a \<open>path\<close> that is not a string raises before anything is
  sent and ends the connection loop, and a file of 4 GiB or more is answered like an
  absent one.
\<close>

lemma get_file_path_not_a_string:
  "handle_request run fs list_dir
     (\<lambda>data. Some [''action'' \<mapsto> JStr ''get_file'', ''path'' \<mapsto> JNum 5]) json_dumps
     \<lparr>inbox = be32 2 @ ''{}'', outbox = []\<rparr>
   = (False, \<lparr>inbox = [], outbox = []\<rparr>)"
  by (simp add: handle_request_def recv_exact_def unpack_be32_be32 get_field_def
      handle_get_file_def Let_def)

lemma get_file_content_too_long:
  "fs file_path = Regular (Inr content) \<Longrightarrow> 4294967296 \<le> length content \<Longrightarrow>
   get_field request ''path'' (JStr []) = JStr file_path \<Longrightarrow>
   handle_get_file fs request sock = Some (sendall sock (be32 0))"
  by (simp add: handle_get_file_def pack_be32_def)

section \<open>Properties of the backend factory\<close>

lemma create_executor_resolved:
  assumes "provider \<noteq> [] \<or> provider = EXECUTOR_PROVIDER cfg"
    and "resolve reg insts provider = Some executor"
  shows "create_executor cfg reg (Some provider) insts = (Inr executor, insts(provider \<mapsto> executor))"
proof (cases "insts provider")
  case None
  with assms show ?thesis
    by (auto simp add: create_executor_def resolve_def registry_get_def
        split: option.splits sum.splits)
next
  case (Some cached)
  with assms(2) have "cached = executor" by (simp add: resolve_def)
  with Some have "insts(provider \<mapsto> executor) = insts" by (simp add: fun_upd_idem)
  with Some \<open>cached = executor\<close> assms(1) show ?thesis
    by (auto simp add: create_executor_def)
qed

lemma create_executor_unresolved:
  assumes "provider \<noteq> [] \<or> provider = EXECUTOR_PROVIDER cfg"
    and "resolve reg insts provider = None"
  shows "\<exists>e. create_executor cfg reg (Some provider) insts = (Inl e, insts)"
  using assms
  by (auto simp add: create_executor_def resolve_def registry_get_def Let_def
      split: option.splits sum.splits)

lemma resolve_after_caching:
  "resolve reg insts provider = Some executor \<Longrightarrow>
   resolve reg (insts(provider \<mapsto> executor)) q = resolve reg insts q"
  by (auto simp add: resolve_def split: option.splits sum.splits)

lemma parse_fallback_providers_nonempty:
  "\<forall>provider \<in> set (parse_fallback_providers fallback_config). provider \<noteq> []"
  by (auto simp add: parse_fallback_providers_def)

lemma fallback_outcome_skip:
  assumes "fallback_outcome cfg reg primary insts0 rest insts1 insts'"
    and "\<not> ((provider \<noteq> primary \<and> has_provider reg provider) \<and> usable reg insts0 provider)"
    and "try_fallbacks cfg reg primary (provider # rest) insts
       = try_fallbacks cfg reg primary rest insts1"
    and "\<forall>q executor. insts q = Some executor \<longrightarrow> insts1 q = Some executor"
  shows "fallback_outcome cfg reg primary insts0 (provider # rest) insts insts'"
  using assms unfolding fallback_outcome_def
  by (auto simp del: try_fallbacks.simps split: option.splits)

lemma try_fallbacks_first_usable:
  assumes "\<forall>provider \<in> set fbs. provider \<noteq> []"
    and "\<forall>q. resolve reg insts q = resolve reg insts0 q"
  shows "\<exists>insts'. fallback_outcome cfg reg primary insts0 fbs insts insts'"
  using assms
proof (induction fbs arbitrary: insts)
  case Nil
  then show ?case by (simp add: fallback_outcome_def)
next
  case (Cons provider rest)
  from Cons.prems(1) have nonempty: "provider \<noteq> []" and rest: "\<forall>p \<in> set rest. p \<noteq> []"
    by simp_all
  show ?case
  proof (cases "provider \<noteq> primary \<and> has_provider reg provider")
    case False
    from Cons.IH [OF rest Cons.prems(2)] obtain insts' where
      "fallback_outcome cfg reg primary insts0 rest insts insts'" by blast
    moreover from False have "try_fallbacks cfg reg primary (provider # rest) insts
        = try_fallbacks cfg reg primary rest insts" by auto
    ultimately have "fallback_outcome cfg reg primary insts0 (provider # rest) insts insts'"
      using False by (intro fallback_outcome_skip [where ?insts1.0 = insts]) auto
    then show ?thesis by blast
  next
    case eligible: True
    show ?thesis
    proof (cases "resolve reg insts0 provider")
      case None
      then have "resolve reg insts provider = None" using Cons.prems(2) by simp
      with nonempty obtain e where
        "create_executor cfg reg (Some provider) insts = (Inl e, insts)"
        using create_executor_unresolved by blast
      with eligible have step: "try_fallbacks cfg reg primary (provider # rest) insts
        = try_fallbacks cfg reg primary rest insts" by simp
      from None have unusable: "\<not> usable reg insts0 provider" by (simp add: usable_def)
      from Cons.IH [OF rest Cons.prems(2)] obtain insts' where
        "fallback_outcome cfg reg primary insts0 rest insts insts'" by blast
      then have "fallback_outcome cfg reg primary insts0 (provider # rest) insts insts'"
        using unusable step by (intro fallback_outcome_skip [where ?insts1.0 = insts]) auto
      then show ?thesis by blast
    next
      case (Some executor)
      then have res: "resolve reg insts provider = Some executor" using Cons.prems(2) by simp
      with nonempty have created:
        "create_executor cfg reg (Some provider) insts = (Inr executor, insts(provider \<mapsto> executor))"
        using create_executor_resolved by blast
      have same: "\<forall>q. resolve reg (insts(provider \<mapsto> executor)) q = resolve reg insts0 q"
        using resolve_after_caching [OF res] Cons.prems(2) by simp
      have kept: "\<forall>q x. insts q = Some x \<longrightarrow> (insts(provider \<mapsto> executor)) q = Some x"
        using res by (auto simp add: resolve_def)
      show ?thesis
      proof (cases "is_healthy executor")
        case True
        then have "usable reg insts0 provider" using Some by (simp add: usable_def)
        with eligible created True Some same kept
        have "fallback_outcome cfg reg primary insts0 (provider # rest) insts
            (insts(provider \<mapsto> executor))"
          unfolding fallback_outcome_def by simp
        then show ?thesis by blast
      next
        case False
        then have unusable: "\<not> usable reg insts0 provider" using Some by (simp add: usable_def)
        from eligible created False
        have step: "try_fallbacks cfg reg primary (provider # rest) insts
          = try_fallbacks cfg reg primary rest (insts(provider \<mapsto> executor))" by simp
        from Cons.IH [OF rest same] obtain insts' where
          "fallback_outcome cfg reg primary insts0 rest (insts(provider \<mapsto> executor)) insts'"
          by blast
        then have "fallback_outcome cfg reg primary insts0 (provider # rest) insts insts'"
          using unusable step kept
          by (intro fallback_outcome_skip [where ?insts1.0 = "insts(provider \<mapsto> executor)"]) auto
        then show ?thesis by blast
      qed
    qed
  qed
qed

lemma find_filter: "find P (filter Q xs) = find (\<lambda>x. Q x \<and> P x) xs"
  by (induction xs) simp_all

lemma after_primary_outcome:
  assumes same: "\<forall>q. resolve reg insts1 q = resolve reg insts q"
  shows "(\<forall>q x. insts1 q = Some x \<longrightarrow> snd (after_primary cfg reg insts1) q = Some x)
    \<and> (\<forall>provider. find (usable reg insts) (fallback_candidates cfg reg) = Some provider \<longrightarrow>
          (\<exists>executor. resolve reg insts provider = Some executor
             \<and> fst (after_primary cfg reg insts1) = Inr executor
             \<and> snd (after_primary cfg reg insts1) provider = Some executor))
    \<and> (find (usable reg insts) (fallback_candidates cfg reg) = None \<longrightarrow>
          fst (after_primary cfg reg insts1)
            = Inl (no_healthy_executor (EXECUTOR_PROVIDER cfg)
                     (parse_fallback_providers (EXECUTOR_FALLBACK_PROVIDERS cfg)) reg))"
proof -
  let ?primary = "EXECUTOR_PROVIDER cfg"
  let ?fbs = "parse_fallback_providers (EXECUTOR_FALLBACK_PROVIDERS cfg)"
  from try_fallbacks_first_usable [OF parse_fallback_providers_nonempty same]
  obtain insts' where out: "fallback_outcome cfg reg ?primary insts ?fbs insts1 insts'"
    by blast
  have candidates: "find (usable reg insts) (fallback_candidates cfg reg)
      = find (\<lambda>provider. (provider \<noteq> ?primary \<and> has_provider reg provider)
                           \<and> usable reg insts provider) ?fbs"
    by (simp add: fallback_candidates_def find_filter)
  show ?thesis
  proof (cases "find (usable reg insts) (fallback_candidates cfg reg)")
    case None
    with candidates have f: "find (\<lambda>provider. (provider \<noteq> ?primary \<and> has_provider reg provider)
                           \<and> usable reg insts provider) ?fbs = None" by simp
    from out have "try_fallbacks cfg reg ?primary ?fbs insts1 = (None, insts')"
      and "\<forall>q x. insts1 q = Some x \<longrightarrow> insts' q = Some x"
      unfolding fallback_outcome_def f by simp_all
    with None show ?thesis by (simp add: after_primary_def)
  next
    case (Some provider)
    with candidates have f: "find (\<lambda>provider. (provider \<noteq> ?primary \<and> has_provider reg provider)
                           \<and> usable reg insts provider) ?fbs = Some provider" by simp
    from out obtain executor where
      "resolve reg insts provider = Some executor" "insts' provider = Some executor"
      "try_fallbacks cfg reg ?primary ?fbs insts1 = (Some executor, insts')"
      and "\<forall>q x. insts1 q = Some x \<longrightarrow> insts' q = Some x"
      unfolding fallback_outcome_def f by auto
    with Some show ?thesis by (simp add: after_primary_def)
  qed
qed

lemma get_healthy_executor_selection:
  "(usable reg insts (EXECUTOR_PROVIDER cfg) \<longrightarrow>
      (\<exists>executor. resolve reg insts (EXECUTOR_PROVIDER cfg) = Some executor
         \<and> get_healthy_executor cfg reg insts
             = (Inr executor, insts(EXECUTOR_PROVIDER cfg \<mapsto> executor))))
   \<and> (\<not> usable reg insts (EXECUTOR_PROVIDER cfg) \<longrightarrow>
        (\<forall>provider. find (usable reg insts) (fallback_candidates cfg reg) = Some provider \<longrightarrow>
           (\<exists>executor. resolve reg insts provider = Some executor
              \<and> fst (get_healthy_executor cfg reg insts) = Inr executor
              \<and> snd (get_healthy_executor cfg reg insts) provider = Some executor))
        \<and> (find (usable reg insts) (fallback_candidates cfg reg) = None \<longrightarrow>
             fst (get_healthy_executor cfg reg insts)
               = Inl (no_healthy_executor (EXECUTOR_PROVIDER cfg)
                        (parse_fallback_providers (EXECUTOR_FALLBACK_PROVIDERS cfg)) reg)))
   \<and> (\<forall>executor. resolve reg insts (EXECUTOR_PROVIDER cfg) = Some executor \<longrightarrow>
        snd (get_healthy_executor cfg reg insts) (EXECUTOR_PROVIDER cfg) = Some executor)
   \<and> (\<forall>q executor. insts q = Some executor \<longrightarrow>
        snd (get_healthy_executor cfg reg insts) q = Some executor)"
proof (cases "resolve reg insts (EXECUTOR_PROVIDER cfg)")
  case None
  then obtain e where created:
    "create_executor cfg reg (Some (EXECUTOR_PROVIDER cfg)) insts = (Inl e, insts)"
    using create_executor_unresolved [of "EXECUTOR_PROVIDER cfg" cfg reg insts] by blast
  then have run: "get_healthy_executor cfg reg insts = after_primary cfg reg insts"
    by (simp add: get_healthy_executor_def)
  from None have "\<not> usable reg insts (EXECUTOR_PROVIDER cfg)"
    by (simp add: usable_def)
  with None after_primary_outcome [of reg insts insts cfg] show ?thesis
    by (simp add: run)
next
  case (Some executor)
  then have created: "create_executor cfg reg (Some (EXECUTOR_PROVIDER cfg)) insts
      = (Inr executor, insts(EXECUTOR_PROVIDER cfg \<mapsto> executor))"
    using create_executor_resolved [of "EXECUTOR_PROVIDER cfg" cfg reg insts executor] by blast
  have kept: "\<forall>q x. insts q = Some x \<longrightarrow> (insts(EXECUTOR_PROVIDER cfg \<mapsto> executor)) q = Some x"
    using Some by (auto simp add: resolve_def)
  show ?thesis
  proof (cases "is_healthy executor")
    case True
    with created have "get_healthy_executor cfg reg insts
        = (Inr executor, insts(EXECUTOR_PROVIDER cfg \<mapsto> executor))"
      by (simp add: get_healthy_executor_def)
    moreover from True Some have "usable reg insts (EXECUTOR_PROVIDER cfg)"
      by (simp add: usable_def)
    ultimately show ?thesis using Some kept by simp
  next
    case False
    with created have run: "get_healthy_executor cfg reg insts
        = after_primary cfg reg (insts(EXECUTOR_PROVIDER cfg \<mapsto> executor))"
      by (simp add: get_healthy_executor_def)
    from False Some have unusable: "\<not> usable reg insts (EXECUTOR_PROVIDER cfg)"
      by (simp add: usable_def)
    have same: "\<forall>q. resolve reg (insts(EXECUTOR_PROVIDER cfg \<mapsto> executor)) q = resolve reg insts q"
      using resolve_after_caching [OF Some] by simp
    from after_primary_outcome [OF same, of cfg] unusable Some kept show ?thesis
      by (simp add: run)
  qed
qed

lemma no_healthy_executor_enumerates:
  assumes "name \<in> set (primary # fbs) \<union> set (map fst reg)"
  shows "\<exists>pre post. no_healthy_executor primary fbs reg = ExecutionError (pre @ name @ post)"
proof (cases "name \<in> set (primary # fbs)")
  case True
  then obtain a b where "join '', '' (primary # fbs) = a @ name @ b"
    using join_contains by blast
  then have "no_healthy_executor primary fbs reg
      = ExecutionError ((''No healthy executor available. '' @ ''Tried: '' @ a) @ name
          @ (b @ ''. '' @ ''Registered providers: '' @ join '', '' (list_providers reg)))"
    by (simp add: no_healthy_executor_def)
  then show ?thesis by blast
next
  case False
  with assms have "name \<in> set (list_providers reg)"
    by (simp add: list_providers_def)
  then obtain a b where "join '', '' (list_providers reg) = a @ name @ b"
    using join_contains by blast
  then have "no_healthy_executor primary fbs reg
      = ExecutionError ((''No healthy executor available. '' @ ''Tried: ''
          @ join '', '' (primary # fbs) @ ''. '' @ ''Registered providers: '' @ a) @ name @ b)"
    by (simp add: no_healthy_executor_def)
  then show ?thesis by blast
qed

text \<open>
  Claim C6. If the primary provider is usable, \<open>get_healthy_executor\<close> returns its
  instance. Otherwise it returns the instance of the first usable fallback candidate
  (the fallback list in order, the primary and unregistered names skipped), and that
  instance is in the cache; when no candidate is usable it fails with the error that
  lists the primary followed by the whole fallback list, and the sorted registered
  names, so that every provider tried and every provider registered occurs in its text.
  In every case the instance constructed for the primary is in the cache afterwards, and
  nothing cached before is lost.
\<close>

theorem get_healthy_executor_fallback:
  "(usable reg insts (EXECUTOR_PROVIDER cfg) \<longrightarrow>
      (\<exists>executor. resolve reg insts (EXECUTOR_PROVIDER cfg) = Some executor
         \<and> get_healthy_executor cfg reg insts
             = (Inr executor, insts(EXECUTOR_PROVIDER cfg \<mapsto> executor))))
   \<and> (\<not> usable reg insts (EXECUTOR_PROVIDER cfg) \<longrightarrow>
        (\<forall>provider. find (usable reg insts) (fallback_candidates cfg reg) = Some provider \<longrightarrow>
           (\<exists>executor. resolve reg insts provider = Some executor
              \<and> fst (get_healthy_executor cfg reg insts) = Inr executor
              \<and> snd (get_healthy_executor cfg reg insts) provider = Some executor))
        \<and> (find (usable reg insts) (fallback_candidates cfg reg) = None \<longrightarrow>
             fst (get_healthy_executor cfg reg insts)
               = Inl (no_healthy_executor (EXECUTOR_PROVIDER cfg)
                        (parse_fallback_providers (EXECUTOR_FALLBACK_PROVIDERS cfg)) reg)))
   \<and> (\<forall>executor. resolve reg insts (EXECUTOR_PROVIDER cfg) = Some executor \<longrightarrow>
        snd (get_healthy_executor cfg reg insts) (EXECUTOR_PROVIDER cfg) = Some executor)
   \<and> (\<forall>q executor. insts q = Some executor \<longrightarrow>
        snd (get_healthy_executor cfg reg insts) q = Some executor)
   \<and> (\<forall>name \<in> set (EXECUTOR_PROVIDER cfg
                       # parse_fallback_providers (EXECUTOR_FALLBACK_PROVIDERS cfg))
                 \<union> set (map fst reg).
        \<exists>pre post. no_healthy_executor (EXECUTOR_PROVIDER cfg)
                      (parse_fallback_providers (EXECUTOR_FALLBACK_PROVIDERS cfg)) reg
                    = ExecutionError (pre @ name @ post))"
  using get_healthy_executor_selection [of reg insts cfg]
    no_healthy_executor_enumerates
      [of _ "EXECUTOR_PROVIDER cfg" "parse_fallback_providers (EXECUTOR_FALLBACK_PROVIDERS cfg)" reg]
  by blast

lemma parse_example:
  "parse_fallback_providers ''firecracker, gvisor, docker'' = [''firecracker'', ''gvisor'', ''docker'']"
  by (simp add: parse_fallback_providers_def strip_def is_space_def)

lemma sorted_example: "list_providers docker_down = [''docker'', ''firecracker'']"
  by (simp add: list_providers_def docker_down_def less_eq_char_def less_char_def)

theorem get_healthy_executor_fallback_witness:
  "fst (get_healthy_executor firecracker_first two_providers Map.empty) = Inr healthy_docker
   \<and> snd (get_healthy_executor firecracker_first two_providers Map.empty) ''firecracker''
       = Some unhealthy_firecracker
   \<and> snd (get_healthy_executor firecracker_first two_providers Map.empty) ''docker''
       = Some healthy_docker
   \<and> fst (get_healthy_executor firecracker_first docker_down Map.empty)
       = Inl (ExecutionError
           (''No healthy executor available. Tried: firecracker, firecracker, gvisor, docker. ''
            @ ''Registered providers: docker, firecracker''))"
proof -
  have cfg: "EXECUTOR_PROVIDER firecracker_first = ''firecracker''"
    "parse_fallback_providers (EXECUTOR_FALLBACK_PROVIDERS firecracker_first)
       = [''firecracker'', ''gvisor'', ''docker'']"
    by (simp_all add: firecracker_first_def parse_example)
  have primary: "resolve two_providers Map.empty ''firecracker'' = Some unhealthy_firecracker"
    "resolve docker_down Map.empty ''firecracker'' = Some unhealthy_firecracker"
    by (simp_all add: resolve_def two_providers_def docker_down_def)
  have unusable: "\<not> usable two_providers Map.empty (EXECUTOR_PROVIDER firecracker_first)"
    "\<not> usable docker_down Map.empty (EXECUTOR_PROVIDER firecracker_first)"
    by (simp_all add: usable_def cfg primary is_healthy_def unhealthy_firecracker_def)
  have found: "find (usable two_providers Map.empty) (fallback_candidates firecracker_first two_providers)
      = Some ''docker''"
    by (simp add: fallback_candidates_def cfg has_provider_def two_providers_def usable_def
        resolve_def is_healthy_def healthy_docker_def)
  have fallback: "resolve two_providers Map.empty ''docker'' = Some healthy_docker"
    by (simp add: resolve_def two_providers_def)
  have exhausted: "find (usable docker_down Map.empty) (fallback_candidates firecracker_first docker_down)
      = None"
    by (simp add: fallback_candidates_def cfg has_provider_def docker_down_def usable_def
        resolve_def)
  have message: "no_healthy_executor (EXECUTOR_PROVIDER firecracker_first)
      (parse_fallback_providers (EXECUTOR_FALLBACK_PROVIDERS firecracker_first)) docker_down
      = ExecutionError
           (''No healthy executor available. Tried: firecracker, firecracker, gvisor, docker. ''
            @ ''Registered providers: docker, firecracker'')"
    by (simp add: no_healthy_executor_def cfg sorted_example)
  from get_healthy_executor_fallback [of two_providers Map.empty firecracker_first]
    unusable(1) found fallback primary(1)
  have one: "fst (get_healthy_executor firecracker_first two_providers Map.empty) = Inr healthy_docker
   \<and> snd (get_healthy_executor firecracker_first two_providers Map.empty) ''firecracker''
       = Some unhealthy_firecracker
   \<and> snd (get_healthy_executor firecracker_first two_providers Map.empty) ''docker''
       = Some healthy_docker"
    by (auto simp add: cfg(1))
  from get_healthy_executor_fallback [of docker_down Map.empty firecracker_first]
    unusable(2) exhausted message
  have two: "fst (get_healthy_executor firecracker_first docker_down Map.empty)
       = Inl (ExecutionError
           (''No healthy executor available. Tried: firecracker, firecracker, gvisor, docker. ''
            @ ''Registered providers: docker, firecracker''))"
    by simp
  from one two show ?thesis by blast
qed

end
